theory Spec2Isabelle
  imports Main
begin

section \<open>The style sheet runtime of react-native-css-interop\<close>

text \<open>
  A shallow embedding of \<^verbatim>\<open>runtime/native/stylesheet.ts\<close>: the tagger \<^verbatim>\<open>tagStyles\<close>,
  the registration entry points \<^verbatim>\<open>register\<close> and \<^verbatim>\<open>create\<close>, \<^verbatim>\<open>__subscribe\<close>,
  \<^verbatim>\<open>__reset\<close> and \<^verbatim>\<open>useVariables\<close>. The module-level variables and the imported
  registries form one record that every operation takes and returns.
\<close>

subsection \<open>Values and object identities\<close>

text \<open>
  Values the module only stores and hands on (media queries, pseudo-class queries,
  transitions, container queries, warnings, key frames) are opaque. A variable value is
  \<^verbatim>\<open>unknown\<close> in the source.
\<close>

type_synonym opaque = string

datatype js_value = Num int | Str string

type_synonym variables = "string \<rightharpoonup> js_value"

text \<open>
  The metadata side table is keyed by object identity. A style object is known by its
  reference. An array is an object of its own: \<^verbatim>\<open>Given n\<close> is an array the caller built,
  \<^verbatim>\<open>Mapped n\<close> is the \<^verbatim>\<open>n\<close>-th array that \<^verbatim>\<open>styles.map\<close> has allocated.
\<close>

type_synonym style_ref = nat

datatype array_ref = Given nat | Mapped nat

datatype obj = StyleObj style_ref | ArrayObj array_ref

text \<open>\<^verbatim>\<open>StyleProp\<close>: what \<^verbatim>\<open>tagStyles\<close> returns, a style object or a new array of them.\<close>

datatype StyleProp = Style style_ref | StyleArray array_ref "style_ref list"

text \<open>An optional boolean field is truthy only when it is present and true.\<close>

definition truthy :: "bool option \<Rightarrow> bool" where
  "truthy b = (b = Some True)"

subsection \<open>Descriptors and metadata\<close>

text \<open>An animation name reference: \<^verbatim>\<open>nameObj.type\<close> and \<^verbatim>\<open>nameObj.value\<close>.\<close>

record AnimationName =
  an_type :: string
  an_value :: "string option"

text \<open>\<^verbatim>\<open>styles.animations\<close>: only \<^verbatim>\<open>name\<close> is read, the rest is carried along.\<close>

record ExtractedAnimations =
  animation_name :: "AnimationName list option"
  animation_rest :: opaque

text \<open>A value of \<^verbatim>\<open>animationMap\<close>.\<close>

record ExtractedAnimation =
  frames :: opaque
  kf_requiresLayout :: "bool option"

text \<open>\<^verbatim>\<open>styles.container\<close> (both fields optional) and \<^verbatim>\<open>meta.container\<close>.\<close>

record PartialContainer =
  names :: "string list option"
  ctype :: "string option"

record ExtractedContainer =
  container_names :: "string list option"
  container_type :: string

record ExtractedStyle =
  style :: style_ref
  isDynamic :: "bool option"
  variables :: "variables option"
  media :: "opaque list option"
  pseudoClasses :: "opaque option"
  animations :: "ExtractedAnimations option"
  container :: "PartialContainer option"
  containerQuery :: "opaque list option"
  transition :: "opaque option"
  requiresLayout :: "bool option"
  style_prop :: "opaque option"
  style_warnings :: "opaque list option"

record StyleMeta =
  meta_variables :: "variables option"
  meta_media :: "opaque list option"
  meta_pseudoClasses :: "opaque option"
  meta_animations :: "ExtractedAnimations option"
  meta_requiresLayout :: "bool option"
  meta_container :: "ExtractedContainer option"
  meta_containerQuery :: "opaque list option"
  meta_transition :: "opaque option"
  meta_prop :: "opaque option"

text \<open>The object literal \<^verbatim>\<open>{}\<close> as a \<^verbatim>\<open>StyleMeta\<close>.\<close>

definition emptyMeta :: StyleMeta where
  "emptyMeta = \<lparr> meta_variables = None, meta_media = None, meta_pseudoClasses = None,
     meta_animations = None, meta_requiresLayout = None, meta_container = None,
     meta_containerQuery = None, meta_transition = None, meta_prop = None \<rparr>"

text \<open>
  The argument of \<^verbatim>\<open>tagStyles\<close>: \<^verbatim>\<open>ExtractedStyle | ExtractedStyle[]\<close>. An array argument
  comes with its identity.
\<close>

datatype styles_arg = Single ExtractedStyle | Many array_ref "ExtractedStyle list"

subsection \<open>The registries\<close>

datatype color_scheme = Light | Dark | Unspecified

type_synonym callback = nat

text \<open>
  What a subscriber finds when it is called: the named styles, the side table, the
  animation map and the four scopes as they are at that moment.
\<close>

type_synonym view =
  "(string \<rightharpoonup> StyleProp) \<times> (obj \<rightharpoonup> StyleMeta) \<times> (string \<rightharpoonup> ExtractedAnimation)
     \<times> variables \<times> variables \<times> variables \<times> variables"

record registries =
  globalStyles :: "string \<rightharpoonup> StyleProp"
  animationMap :: "string \<rightharpoonup> ExtractedAnimation"
  warnings :: "string \<rightharpoonup> opaque list"
  warned :: "string set"
  styleMetaMap :: "obj \<rightharpoonup> StyleMeta"
  rem :: nat
  vw :: nat
  vh :: nat
  colorScheme :: color_scheme
  rootVariables :: variables
  rootDarkVariables :: variables
  defaultVariables :: variables
  defaultDarkVariables :: variables
  subscriptions :: "callback list"
  invoked :: "(callback \<times> view) list"
  nextArray :: nat
  production :: bool

text \<open>
  \<^verbatim>\<open>subscriptions\<close> is a JavaScript \<^verbatim>\<open>Set\<close>: a duplicate-free sequence in insertion
  order. A callback is known by the identity of its function object; its body is outside
  the module, so calling it is recorded in \<^verbatim>\<open>invoked\<close>, with what it finds, and changes
  nothing else. \<^verbatim>\<open>nextArray\<close> counts the arrays that \<^verbatim>\<open>styles.map\<close> has allocated, and
  \<^verbatim>\<open>production\<close> is \<^verbatim>\<open>process.env.NODE_ENV === "production"\<close>.
\<close>

subsection \<open>tagStyles\<close>

text \<open>
  Lines 157 to 160: \<^verbatim>\<open>styles.animations.name?.some(...)\<close>. A \<^verbatim>\<open>Map\<close> has no entry at
  \<^verbatim>\<open>undefined\<close>, and \<^verbatim>\<open>?.\<close> turns a missing definition into a falsy result.
\<close>

definition resolveName :: "AnimationName \<Rightarrow> string option" where
  "resolveName nameObj = (if an_type nameObj = ''none'' then Some ''none'' else an_value nameObj)"

definition nameRequiresLayout :: "(string \<rightharpoonup> ExtractedAnimation) \<Rightarrow> AnimationName \<Rightarrow> bool" where
  "nameRequiresLayout amap nameObj =
     (case resolveName nameObj of
        None \<Rightarrow> False
      | Some n \<Rightarrow> (case amap n of None \<Rightarrow> False | Some k \<Rightarrow> truthy (kf_requiresLayout k)))"

definition animationsRequireLayout :: "(string \<rightharpoonup> ExtractedAnimation) \<Rightarrow> ExtractedAnimations \<Rightarrow> bool" where
  "animationsRequireLayout amap a =
     (case animation_name a of None \<Rightarrow> False | Some ns \<Rightarrow> list_ex (nameRequiresLayout amap) ns)"

text \<open>
  The \<^verbatim>\<open>else\<close> branch (lines 131 to 202). Each \<^verbatim>\<open>if\<close> statement is one function on
  the pair \<^verbatim>\<open>(hasMeta, meta)\<close>, and \<^verbatim>\<open>buildMeta\<close> runs them in the order of the source.
\<close>

type_synonym tagging = "bool \<times> StyleMeta"

definition tag_isDynamic :: "ExtractedStyle \<Rightarrow> tagging \<Rightarrow> tagging" where
  "tag_isDynamic styles t =
     (case t of (hasMeta, meta) \<Rightarrow>
        if truthy (isDynamic styles) then (True, meta) else (hasMeta, meta))"

definition tag_variables :: "ExtractedStyle \<Rightarrow> tagging \<Rightarrow> tagging" where
  "tag_variables styles t =
     (case t of (hasMeta, meta) \<Rightarrow>
        (case variables styles of
           Some v \<Rightarrow> (True, meta\<lparr>meta_variables := Some v\<rparr>)
         | None \<Rightarrow> (hasMeta, meta)))"

definition tag_media :: "ExtractedStyle \<Rightarrow> tagging \<Rightarrow> tagging" where
  "tag_media styles t =
     (case t of (hasMeta, meta) \<Rightarrow>
        (case media styles of
           Some m \<Rightarrow> if length m > 0 then (True, meta\<lparr>meta_media := Some m\<rparr>) else (hasMeta, meta)
         | None \<Rightarrow> (hasMeta, meta)))"

definition tag_pseudoClasses :: "ExtractedStyle \<Rightarrow> tagging \<Rightarrow> tagging" where
  "tag_pseudoClasses styles t =
     (case t of (hasMeta, meta) \<Rightarrow>
        (case pseudoClasses styles of
           Some p \<Rightarrow> (True, meta\<lparr>meta_pseudoClasses := Some p\<rparr>)
         | None \<Rightarrow> (hasMeta, meta)))"

definition tag_animations :: "(string \<rightharpoonup> ExtractedAnimation) \<Rightarrow> ExtractedStyle \<Rightarrow> tagging \<Rightarrow> tagging" where
  "tag_animations amap styles t =
     (case t of (hasMeta, meta) \<Rightarrow>
        (case animations styles of
           Some a \<Rightarrow>
             (let meta = meta\<lparr>meta_animations := Some a\<rparr>;
                  requiresLayout = animationsRequireLayout amap a
              in (True, if requiresLayout then meta\<lparr>meta_requiresLayout := Some True\<rparr> else meta))
         | None \<Rightarrow> (hasMeta, meta)))"

definition tag_container :: "ExtractedStyle \<Rightarrow> tagging \<Rightarrow> tagging" where
  "tag_container styles t =
     (case t of (hasMeta, meta) \<Rightarrow>
        (case container styles of
           Some c \<Rightarrow>
             (True, meta\<lparr>meta_container := Some \<lparr> container_names = names c,
                container_type = (case ctype c of None \<Rightarrow> ''normal'' | Some ty \<Rightarrow> ty) \<rparr>\<rparr>)
         | None \<Rightarrow> (hasMeta, meta)))"

definition tag_containerQuery :: "ExtractedStyle \<Rightarrow> tagging \<Rightarrow> tagging" where
  "tag_containerQuery styles t =
     (case t of (hasMeta, meta) \<Rightarrow>
        (case containerQuery styles of
           Some q \<Rightarrow> (True, meta\<lparr>meta_containerQuery := Some q\<rparr>)
         | None \<Rightarrow> (hasMeta, meta)))"

definition tag_transition :: "ExtractedStyle \<Rightarrow> tagging \<Rightarrow> tagging" where
  "tag_transition styles t =
     (case t of (hasMeta, meta) \<Rightarrow>
        (case transition styles of
           Some tr \<Rightarrow> (True, meta\<lparr>meta_transition := Some tr\<rparr>)
         | None \<Rightarrow> (hasMeta, meta)))"

definition tag_requiresLayout :: "ExtractedStyle \<Rightarrow> tagging \<Rightarrow> tagging" where
  "tag_requiresLayout styles t =
     (case t of (hasMeta, meta) \<Rightarrow>
        if truthy (requiresLayout styles)
        then (True, meta\<lparr>meta_requiresLayout := requiresLayout styles\<rparr>)
        else (hasMeta, meta))"

definition tag_prop :: "ExtractedStyle \<Rightarrow> tagging \<Rightarrow> tagging" where
  "tag_prop styles t =
     (case t of (hasMeta, meta) \<Rightarrow>
        (case style_prop styles of
           Some p \<Rightarrow> (True, meta\<lparr>meta_prop := Some p\<rparr>)
         | None \<Rightarrow> (hasMeta, meta)))"

definition buildMeta :: "(string \<rightharpoonup> ExtractedAnimation) \<Rightarrow> ExtractedStyle \<Rightarrow> tagging" where
  "buildMeta amap styles =
    (let t = (False, emptyMeta);
         t = tag_isDynamic styles t;
         t = tag_variables styles t;
         t = tag_media styles t;
         t = tag_pseudoClasses styles t;
         t = tag_animations amap styles t;
         t = tag_container styles t;
         t = tag_containerQuery styles t;
         t = tag_transition styles t;
         t = tag_requiresLayout styles t;
         t = tag_prop styles t
     in t)"

text \<open>
  The rest of the branch: the warnings (lines 194 to 196), the side table (lines 198 to
  200) and the returned \<^verbatim>\<open>styles.style\<close>.
\<close>

definition tagStyle :: "string \<Rightarrow> ExtractedStyle \<Rightarrow> registries \<Rightarrow> style_ref \<times> registries" where
  "tagStyle name styles s =
    (let (hasMeta, meta) = buildMeta (animationMap s) styles;
         s = (case style_warnings styles of
                Some w \<Rightarrow> (if \<not> production s then s\<lparr>warnings := (warnings s)(name \<mapsto> w)\<rparr> else s)
              | None \<Rightarrow> s);
         s = (if hasMeta then s\<lparr>styleMetaMap := (styleMetaMap s)(StyleObj (style styles) \<mapsto> meta)\<rparr> else s)
     in (style styles, s))"

text \<open>
  The callback of \<^verbatim>\<open>styles.map\<close> (lines 119 to 123), run over the elements in order with
  \<^verbatim>\<open>didTag\<close> threaded through. An element of \<^verbatim>\<open>ExtractedStyle[]\<close> is a single
  descriptor, so the recursive call \<^verbatim>\<open>tagStyles(name, s)\<close> takes the \<^verbatim>\<open>else\<close> branch.
  \<^verbatim>\<open>tagStyles\<close> never assigns to a property of \<^verbatim>\<open>styles.style\<close>, so a style object is
  modelled by its identity alone.
\<close>

fun tagEach :: "string \<Rightarrow> ExtractedStyle list \<Rightarrow> bool \<Rightarrow> registries \<Rightarrow> style_ref list \<times> bool \<times> registries" where
  "tagEach name [] didTag s = ([], didTag, s)"
| "tagEach name (x # xs) didTag s =
    (let (taggedStyle, s) = tagStyle name x s;
         didTag = (didTag \<or> styleMetaMap s (StyleObj (style x)) \<noteq> None);
         (rest, didTag, s) = tagEach name xs didTag s
     in (taggedStyle # rest, didTag, s))"

definition tagStyles :: "string \<Rightarrow> styles_arg \<Rightarrow> registries \<Rightarrow> StyleProp \<times> registries" where
  "tagStyles name styles s =
    (case styles of
       Many input xs \<Rightarrow>
         (let a = Mapped (nextArray s);
              s = s\<lparr>nextArray := Suc (nextArray s)\<rparr>;
              (taggedStyles, didTag, s) = tagEach name xs False s;
              s = (if didTag then s\<lparr>styleMetaMap := (styleMetaMap s)(ArrayObj a \<mapsto> emptyMeta)\<rparr> else s)
          in (StyleArray a taggedStyles, s))
     | Single x \<Rightarrow> (let (v, s) = tagStyle name x s in (Style v, s)))"

subsection \<open>Subscriptions\<close>

text \<open>\<^verbatim>\<open>Set.prototype.add\<close> and \<^verbatim>\<open>Set.prototype.delete\<close> on the insertion-ordered sequence.\<close>

definition set_add :: "'a \<Rightarrow> 'a list \<Rightarrow> 'a list" where
  "set_add x xs = (if x \<in> set xs then xs else xs @ [x])"

definition set_delete :: "'a \<Rightarrow> 'a list \<Rightarrow> 'a list" where
  "set_delete x xs = filter (\<lambda>y. y \<noteq> x) xs"

text \<open>The arrow function returned by \<^verbatim>\<open>__subscribe\<close> (lines 42 to 44), closed over its argument.\<close>

definition unsubscribe :: "callback \<Rightarrow> registries \<Rightarrow> registries" where
  "unsubscribe subscription s = s\<lparr>subscriptions := set_delete subscription (subscriptions s)\<rparr>"

definition subscribe :: "callback \<Rightarrow> registries \<Rightarrow> (registries \<Rightarrow> registries) \<times> registries" where
  "subscribe subscription s =
     (unsubscribe subscription, s\<lparr>subscriptions := set_add subscription (subscriptions s)\<rparr>)"

definition observe :: "registries \<Rightarrow> view" where
  "observe s = (globalStyles s, styleMetaMap s, animationMap s,
     rootVariables s, rootDarkVariables s, defaultVariables s, defaultDarkVariables s)"

text \<open>\<^verbatim>\<open>for (const subscription of subscriptions) subscription()\<close>.\<close>

definition broadcast :: "registries \<Rightarrow> registries" where
  "broadcast s = s\<lparr>invoked := invoked s @ map (\<lambda>f. (f, observe s)) (subscriptions s)\<rparr>"

subsection \<open>Reset\<close>

record dimension_source =
  window_width :: nat
  window_height :: nat

text \<open>
  The platform sources \<^verbatim>\<open>Dimensions\<close> and \<^verbatim>\<open>Appearance\<close>, the defaults of
  \<^verbatim>\<open>__reset\<close>, and the value \<^verbatim>\<open>rem\<close> starts from.
\<close>

record platform =
  Dimensions :: dimension_source
  Appearance :: color_scheme
  defaultRem :: nat

record reset_config =
  dimensions :: "dimension_source option"
  appearance :: "color_scheme option"

text \<open>
  Modelled from the spec: the \<^verbatim>\<open>reset\<close> methods of the trackers \<^verbatim>\<open>rem\<close>, \<^verbatim>\<open>vw\<close>,
  \<^verbatim>\<open>vh\<close> and \<^verbatim>\<open>colorScheme\<close> live in \<^verbatim>\<open>./globals\<close>. The spec has them
  reinitialise the unit trackers from the dimension source and the colour-scheme tracker
  from the appearance source.
\<close>

definition rem_reset :: "platform \<Rightarrow> registries \<Rightarrow> registries" where
  "rem_reset p s = s\<lparr>rem := defaultRem p\<rparr>"

definition vw_reset :: "dimension_source \<Rightarrow> registries \<Rightarrow> registries" where
  "vw_reset d s = s\<lparr>vw := window_width d\<rparr>"

definition vh_reset :: "dimension_source \<Rightarrow> registries \<Rightarrow> registries" where
  "vh_reset d s = s\<lparr>vh := window_height d\<rparr>"

definition colorScheme_reset :: "color_scheme \<Rightarrow> registries \<Rightarrow> registries" where
  "colorScheme_reset a s = s\<lparr>colorScheme := a\<rparr>"

text \<open>\<^verbatim>\<open>__reset\<close> (lines 46 to 59), statement by statement.\<close>

definition reset :: "platform \<Rightarrow> reset_config \<Rightarrow> registries \<Rightarrow> registries" where
  "reset p cfg s =
    (let dimensions = (case dimensions cfg of None \<Rightarrow> Dimensions p | Some d \<Rightarrow> d);
         appearance = (case appearance cfg of None \<Rightarrow> Appearance p | Some a \<Rightarrow> a);
         s = s\<lparr>globalStyles := Map.empty\<rparr>;
         s = s\<lparr>animationMap := Map.empty\<rparr>;
         s = s\<lparr>warnings := Map.empty\<rparr>;
         s = s\<lparr>warned := {}\<rparr>;
         s = rem_reset p s;
         s = vw_reset dimensions s;
         s = vh_reset dimensions s;
         s = colorScheme_reset appearance s;
         s = s\<lparr>rootVariables := Map.empty\<rparr>;
         s = s\<lparr>rootDarkVariables := Map.empty\<rparr>;
         s = s\<lparr>defaultVariables := Map.empty\<rparr>;
         s = s\<lparr>defaultDarkVariables := Map.empty\<rparr>
     in s)"

subsection \<open>register and create\<close>

record StyleSheetRegisterOptions =
  keyframes :: "(string \<times> ExtractedAnimation) list option"
  declarations :: "(string \<times> styles_arg) list option"
  opt_defaultVariables :: "variables option"
  opt_defaultDarkVariables :: "variables option"
  opt_rootVariables :: "variables option"
  opt_rootDarkVariables :: "variables option"

text \<open>
  \<^verbatim>\<open>keyframes\<close> and \<^verbatim>\<open>declarations\<close> are given as their \<^verbatim>\<open>Object.entries\<close>.
  Spreading \<^verbatim>\<open>undefined\<close> into an object literal adds nothing.
\<close>

definition spread :: "variables option \<Rightarrow> variables" where
  "spread v = (case v of None \<Rightarrow> Map.empty | Some m \<Rightarrow> m)"

fun setKeyframes :: "(string \<times> ExtractedAnimation) list \<Rightarrow> registries \<Rightarrow> registries" where
  "setKeyframes [] s = s"
| "setKeyframes ((name, k) # rest) s = setKeyframes rest (s\<lparr>animationMap := (animationMap s)(name \<mapsto> k)\<rparr>)"

fun setDeclarations :: "(string \<times> styles_arg) list \<Rightarrow> registries \<Rightarrow> registries" where
  "setDeclarations [] s = s"
| "setDeclarations ((name, styles) # rest) s =
    (let (v, s) = tagStyles name styles s
     in setDeclarations rest (s\<lparr>globalStyles := (globalStyles s)(name \<mapsto> v)\<rparr>))"

definition register :: "StyleSheetRegisterOptions \<Rightarrow> registries \<Rightarrow> registries" where
  "register options s =
    (let s = (case keyframes options of Some kfs \<Rightarrow> setKeyframes kfs s | None \<Rightarrow> s);
         s = (case declarations options of Some ds \<Rightarrow> setDeclarations ds s | None \<Rightarrow> s);
         s = (case opt_defaultVariables options of
                Some v \<Rightarrow> s\<lparr>defaultVariables := v\<rparr> | None \<Rightarrow> s);
         s = (case opt_defaultDarkVariables options of
                Some v \<Rightarrow> s\<lparr>defaultDarkVariables := spread (opt_defaultVariables options) ++ v\<rparr>
              | None \<Rightarrow> s);
         s = (case opt_rootVariables options of
                Some v \<Rightarrow> s\<lparr>rootVariables := v ++ defaultVariables s\<rparr> | None \<Rightarrow> s);
         s = (case opt_rootDarkVariables options of
                Some v \<Rightarrow> s\<lparr>rootDarkVariables :=
                  spread (opt_rootVariables options) ++ v ++ defaultDarkVariables s\<rparr>
              | None \<Rightarrow> s)
     in broadcast s)"

text \<open>
  \<^verbatim>\<open>namedStyles\<close> starts as the object literal \<^verbatim>\<open>{}\<close>: an ordinary object with its own
  properties and a prototype, \<^verbatim>\<open>None\<close> for \<^verbatim>\<open>Object.prototype\<close>. An assignment
  \<^verbatim>\<open>namedStyles[name] = v\<close> adds an own property, except for the name \<^verbatim>\<open>"__proto__"\<close>:
  that assignment runs the setter inherited from \<^verbatim>\<open>Object.prototype\<close>, which makes the
  object \<^verbatim>\<open>v\<close> the prototype and adds no own property.
\<close>

record named_styles =
  own :: "string \<rightharpoonup> StyleProp"
  prototype :: "StyleProp option"

definition assign :: "named_styles \<Rightarrow> string \<Rightarrow> StyleProp \<Rightarrow> named_styles" where
  "assign namedStyles name v =
     (if name = ''__proto__'' then namedStyles\<lparr>prototype := Some v\<rparr>
      else namedStyles\<lparr>own := (own namedStyles)(name \<mapsto> v)\<rparr>)"

text \<open>The first loop of \<^verbatim>\<open>create\<close>, filling \<^verbatim>\<open>namedStyles\<close>.\<close>

fun tagNamed :: "(string \<times> ExtractedStyle) list \<Rightarrow> named_styles \<Rightarrow> registries
    \<Rightarrow> named_styles \<times> registries" where
  "tagNamed [] namedStyles s = (namedStyles, s)"
| "tagNamed ((name, x) # rest) namedStyles s =
    (let (v, s) = tagStyles name (Single x) s
     in tagNamed rest (assign namedStyles name v) s)"

definition create :: "(string \<times> ExtractedStyle) list \<Rightarrow> registries \<Rightarrow> named_styles \<times> registries" where
  "create styles s =
    (let (namedStyles, s) = tagNamed styles \<lparr> own = Map.empty, prototype = None \<rparr> s;
         s = broadcast s
     in (namedStyles, s))"

subsection \<open>useVariables\<close>

text \<open>
  The arguments are what \<^verbatim>\<open>useContext(VariableContext)\<close> and
  \<^verbatim>\<open>Appearance.getColorScheme()\<close> return; \<^verbatim>\<open>None\<close> is \<^verbatim>\<open>null\<close>.
\<close>

definition useVariables :: "variables option \<Rightarrow> color_scheme \<Rightarrow> registries \<Rightarrow> variables" where
  "useVariables vars scheme s =
    (case vars of
       None \<Rightarrow> (if scheme = Light then rootVariables s else rootDarkVariables s)
     | Some inherited \<Rightarrow>
         (if scheme = Light then inherited ++ defaultVariables s
          else inherited ++ defaultDarkVariables s))"

subsection \<open>Sequences of calls\<close>

text \<open>
  The module as loaded, and the calls a client can make. \<^verbatim>\<open>Unsubscribe f\<close> is a call
  of a function that \<^verbatim>\<open>__subscribe(f)\<close> returned.
\<close>

definition initial :: "platform \<Rightarrow> bool \<Rightarrow> registries" where
  "initial p isProduction = \<lparr> globalStyles = Map.empty, animationMap = Map.empty, warnings = Map.empty,
     warned = {}, styleMetaMap = Map.empty, rem = defaultRem p,
     vw = window_width (Dimensions p), vh = window_height (Dimensions p),
     colorScheme = Appearance p, rootVariables = Map.empty, rootDarkVariables = Map.empty,
     defaultVariables = Map.empty, defaultDarkVariables = Map.empty, subscriptions = [],
     invoked = [], nextArray = 0, production = isProduction \<rparr>"

datatype call =
    Subscribe callback
  | Unsubscribe callback
  | Register StyleSheetRegisterOptions
  | Create "(string \<times> ExtractedStyle) list"
  | Reset platform reset_config

fun step :: "call \<Rightarrow> registries \<Rightarrow> registries" where
  "step (Subscribe f) s = snd (subscribe f s)"
| "step (Unsubscribe f) s = unsubscribe f s"
| "step (Register options) s = register options s"
| "step (Create styles) s = snd (create styles s)"
| "step (Reset p cfg) s = reset p cfg s"

fun run :: "call list \<Rightarrow> registries \<Rightarrow> registries" where
  "run [] s = s"
| "run (c # cs) s = run cs (step c s)"

section \<open>What the specification says\<close>

subsection \<open>The metadata of a single descriptor\<close>

text \<open>
  The specification describes the outcome of tagging field by field, with no order of
  statements. A descriptor is dynamic when a dynamic-relevant field is set: a flag that is
  true, a media list that is not empty, any other field that is present.
\<close>

definition hasDynamicField :: "ExtractedStyle \<Rightarrow> bool" where
  "hasDynamicField d =
     (truthy (isDynamic d) \<or> variables d \<noteq> None
      \<or> (case media d of None \<Rightarrow> False | Some m \<Rightarrow> m \<noteq> [])
      \<or> pseudoClasses d \<noteq> None \<or> animations d \<noteq> None \<or> container d \<noteq> None
      \<or> containerQuery d \<noteq> None \<or> transition d \<noteq> None
      \<or> truthy (requiresLayout d) \<or> style_prop d \<noteq> None)"

text \<open>A container with its \<^verbatim>\<open>type\<close> defaulted to \<^verbatim>\<open>"normal"\<close>.\<close>

definition normalizeContainer :: "PartialContainer \<Rightarrow> ExtractedContainer" where
  "normalizeContainer c = \<lparr> container_names = names c,
     container_type = (case ctype c of None \<Rightarrow> ''normal'' | Some ty \<Rightarrow> ty) \<rparr>"

text \<open>
  Some referenced animation name, \<^verbatim>\<open>"none"\<close> for a reference typed \<^verbatim>\<open>"none"\<close>, has a
  definition in the animation map that requires layout.
\<close>

definition someAnimationRequiresLayout :: "(string \<rightharpoonup> ExtractedAnimation) \<Rightarrow> ExtractedAnimations \<Rightarrow> bool" where
  "someAnimationRequiresLayout amap a =
     (\<exists>ns. animation_name a = Some ns \<and>
        (\<exists>nameObj \<in> set ns. \<exists>n k.
           (if an_type nameObj = ''none'' then n = ''none'' else an_value nameObj = Some n)
           \<and> amap n = Some k \<and> kf_requiresLayout k = Some True))"

text \<open>The record the specification expects in the side table for a dynamic descriptor.\<close>

definition expectedMeta :: "(string \<rightharpoonup> ExtractedAnimation) \<Rightarrow> ExtractedStyle \<Rightarrow> StyleMeta" where
  "expectedMeta amap d =
     \<lparr> meta_variables = variables d,
       meta_media = (case media d of None \<Rightarrow> None | Some m \<Rightarrow> if m = [] then None else Some m),
       meta_pseudoClasses = pseudoClasses d,
       meta_animations = animations d,
       meta_requiresLayout =
         (if truthy (requiresLayout d)
             \<or> (case animations d of None \<Rightarrow> False | Some a \<Rightarrow> animationsRequireLayout amap a)
          then Some True else None),
       meta_container = map_option normalizeContainer (container d),
       meta_containerQuery = containerQuery d,
       meta_transition = transition d,
       meta_prop = style_prop d \<rparr>"

text \<open>
  The names of the dynamic-relevant fields set on a descriptor, and of the fields present in
  a metadata record. \<^verbatim>\<open>StyleMeta\<close> is never given an \<^verbatim>\<open>isDynamic\<close> field.
\<close>

datatype field =
    F_isDynamic | F_variables | F_media | F_pseudoClasses | F_animations | F_container
  | F_containerQuery | F_transition | F_requiresLayout | F_prop

definition presentFields :: "ExtractedStyle \<Rightarrow> field set" where
  "presentFields d =
     (if truthy (isDynamic d) then {F_isDynamic} else {})
     \<union> (if variables d = None then {} else {F_variables})
     \<union> (case media d of None \<Rightarrow> {} | Some m \<Rightarrow> if m = [] then {} else {F_media})
     \<union> (if pseudoClasses d = None then {} else {F_pseudoClasses})
     \<union> (if animations d = None then {} else {F_animations})
     \<union> (if container d = None then {} else {F_container})
     \<union> (if containerQuery d = None then {} else {F_containerQuery})
     \<union> (if transition d = None then {} else {F_transition})
     \<union> (if truthy (requiresLayout d) then {F_requiresLayout} else {})
     \<union> (if style_prop d = None then {} else {F_prop})"

definition metaFields :: "StyleMeta \<Rightarrow> field set" where
  "metaFields m =
     (if meta_variables m = None then {} else {F_variables})
     \<union> (if meta_media m = None then {} else {F_media})
     \<union> (if meta_pseudoClasses m = None then {} else {F_pseudoClasses})
     \<union> (if meta_animations m = None then {} else {F_animations})
     \<union> (if meta_container m = None then {} else {F_container})
     \<union> (if meta_containerQuery m = None then {} else {F_containerQuery})
     \<union> (if meta_transition m = None then {} else {F_transition})
     \<union> (if meta_requiresLayout m = None then {} else {F_requiresLayout})
     \<union> (if meta_prop m = None then {} else {F_prop})"

text \<open>The field a derived layout requirement adds.\<close>

definition derivedFields :: "(string \<rightharpoonup> ExtractedAnimation) \<Rightarrow> ExtractedStyle \<Rightarrow> field set" where
  "derivedFields amap d =
     (case animations d of
        None \<Rightarrow> {}
      | Some a \<Rightarrow> if animationsRequireLayout amap a then {F_requiresLayout} else {})"

subsection \<open>What tagging leaves alone\<close>

text \<open>
  Every registry and module variable that \<^verbatim>\<open>tagStyles\<close> has no statement for: all but the
  side table, the warnings and the allocation of arrays.
\<close>

definition outside_tagging where
  "outside_tagging s =
     (globalStyles s, animationMap s, warned s, rem s, vw s, vh s, colorScheme s,
      rootVariables s, rootDarkVariables s, defaultVariables s, defaultDarkVariables s,
      subscriptions s, invoked s, production s)"

text \<open>What the two loops of \<^verbatim>\<open>register\<close> and the loop of \<^verbatim>\<open>create\<close> have no statement for.\<close>

definition outside_loops where
  "outside_loops s =
     (warned s, rem s, vw s, vh s, colorScheme s,
      rootVariables s, rootDarkVariables s, defaultVariables s, defaultDarkVariables s,
      subscriptions s, invoked s, production s)"

text \<open>
  An array that is yet to be allocated is no key of the side table. This holds when the
  module is loaded and every call keeps it.
\<close>

definition fresh_arrays :: "registries \<Rightarrow> bool" where
  "fresh_arrays s = (\<forall>n. nextArray s \<le> n \<longrightarrow> styleMetaMap s (ArrayObj (Mapped n)) = None)"

text \<open>
  The arrays that exist in a state: every array the caller built, and the arrays
  \<^verbatim>\<open>styles.map\<close> has allocated so far.
\<close>

definition allocated :: "registries \<Rightarrow> array_ref \<Rightarrow> bool" where
  "allocated s a = (case a of Given n \<Rightarrow> True | Mapped n \<Rightarrow> n < nextArray s)"

text \<open>How often a callback has been called so far.\<close>

definition timesInvoked :: "callback \<Rightarrow> registries \<Rightarrow> nat" where
  "timesInvoked f s = length (filter (\<lambda>c. fst c = f) (invoked s))"


subsection \<open>Example inputs\<close>

definition examplePlatform :: platform where
  "examplePlatform = \<lparr> Dimensions = \<lparr> window_width = 390, window_height = 844 \<rparr>,
     Appearance = Light, defaultRem = 14 \<rparr>"

definition defaultConfig :: reset_config where
  "defaultConfig = \<lparr> dimensions = None, appearance = None \<rparr>"

definition plainStyle :: "style_ref \<Rightarrow> ExtractedStyle" where
  "plainStyle r = \<lparr> style = r, isDynamic = None, variables = None, media = None,
     pseudoClasses = None, animations = None, container = None, containerQuery = None,
     transition = None, requiresLayout = None, style_prop = None, style_warnings = None \<rparr>"

definition dynamicOnly :: ExtractedStyle where
  "dynamicOnly = (plainStyle 0)\<lparr>isDynamic := Some True\<rparr>"

definition hoverStyle :: ExtractedStyle where
  "hoverStyle = (plainStyle 1)\<lparr>pseudoClasses := Some ''hover''\<rparr>"

definition spinStyle :: ExtractedStyle where
  "spinStyle = (plainStyle 2)\<lparr>animations :=
     Some \<lparr> animation_name = Some [\<lparr> an_type = ''custom'', an_value = Some ''spin'' \<rparr>],
            animation_rest = ''1s linear infinite'' \<rparr>\<rparr>"

definition noOptions :: StyleSheetRegisterOptions where
  "noOptions = \<lparr> keyframes = None, declarations = None, opt_defaultVariables = None,
     opt_defaultDarkVariables = None, opt_rootVariables = None, opt_rootDarkVariables = None \<rparr>"

definition spinOptions :: StyleSheetRegisterOptions where
  "spinOptions = noOptions\<lparr>keyframes :=
     Some [(''spin'', \<lparr> frames = ''rotate'', kf_requiresLayout = Some True \<rparr>)]\<rparr>"

definition defaultsOptions :: StyleSheetRegisterOptions where
  "defaultsOptions = noOptions\<lparr>opt_defaultVariables := Some [''a'' \<mapsto> Num 1],
     opt_defaultDarkVariables := Some [''b'' \<mapsto> Num 2]\<rparr>"

definition rootOptions :: StyleSheetRegisterOptions where
  "rootOptions = noOptions\<lparr>opt_rootVariables := Some [''c'' \<mapsto> Num 3]\<rparr>"

definition hoverOptions :: StyleSheetRegisterOptions where
  "hoverOptions = noOptions\<lparr>declarations := Some [(''btn'', Single hoverStyle)]\<rparr>"

definition protoOptions :: StyleSheetRegisterOptions where
  "protoOptions = noOptions\<lparr>declarations := Some [(''__proto__'', Single hoverStyle)]\<rparr>"

section \<open>The tagger\<close>

subsection \<open>Each statement of the single-descriptor branch\<close>

lemma option_case_id: "(case x of None \<Rightarrow> None | Some v \<Rightarrow> Some v) = x"
  by (cases x) simp_all

lemma tag_isDynamic_eq:
  "tag_isDynamic d (h, m) = (h \<or> truthy (isDynamic d), m)"
  by (simp add: tag_isDynamic_def)

lemma tag_variables_eq:
  "tag_variables d (h, m) =
     (h \<or> variables d \<noteq> None,
      m\<lparr>meta_variables := (case variables d of None \<Rightarrow> meta_variables m | Some v \<Rightarrow> Some v)\<rparr>)"
  by (simp add: tag_variables_def split: option.split)

lemma tag_media_eq:
  "tag_media d (h, m) =
     (h \<or> (case media d of None \<Rightarrow> False | Some x \<Rightarrow> x \<noteq> []),
      m\<lparr>meta_media := (case media d of None \<Rightarrow> meta_media m
                        | Some x \<Rightarrow> if x = [] then meta_media m else Some x)\<rparr>)"
  by (simp add: tag_media_def split: option.split)

lemma tag_pseudoClasses_eq:
  "tag_pseudoClasses d (h, m) =
     (h \<or> pseudoClasses d \<noteq> None,
      m\<lparr>meta_pseudoClasses := (case pseudoClasses d of None \<Rightarrow> meta_pseudoClasses m | Some v \<Rightarrow> Some v)\<rparr>)"
  by (simp add: tag_pseudoClasses_def split: option.split)

lemma tag_animations_eq:
  "tag_animations amap d (h, m) =
     (h \<or> animations d \<noteq> None,
      m\<lparr>meta_animations := (case animations d of None \<Rightarrow> meta_animations m | Some a \<Rightarrow> Some a),
        meta_requiresLayout :=
          (if (case animations d of None \<Rightarrow> False | Some a \<Rightarrow> animationsRequireLayout amap a)
           then Some True else meta_requiresLayout m)\<rparr>)"
  by (simp add: tag_animations_def Let_def split: option.split)

lemma tag_container_eq:
  "tag_container d (h, m) =
     (h \<or> container d \<noteq> None,
      m\<lparr>meta_container := (case container d of None \<Rightarrow> meta_container m
                            | Some c \<Rightarrow> Some (normalizeContainer c))\<rparr>)"
  by (simp add: tag_container_def normalizeContainer_def split: option.split)

lemma tag_containerQuery_eq:
  "tag_containerQuery d (h, m) =
     (h \<or> containerQuery d \<noteq> None,
      m\<lparr>meta_containerQuery := (case containerQuery d of None \<Rightarrow> meta_containerQuery m | Some v \<Rightarrow> Some v)\<rparr>)"
  by (simp add: tag_containerQuery_def split: option.split)

lemma tag_transition_eq:
  "tag_transition d (h, m) =
     (h \<or> transition d \<noteq> None,
      m\<lparr>meta_transition := (case transition d of None \<Rightarrow> meta_transition m | Some v \<Rightarrow> Some v)\<rparr>)"
  by (simp add: tag_transition_def split: option.split)

lemma tag_requiresLayout_eq:
  "tag_requiresLayout d (h, m) =
     (h \<or> truthy (requiresLayout d),
      m\<lparr>meta_requiresLayout := (if truthy (requiresLayout d) then Some True else meta_requiresLayout m)\<rparr>)"
  by (simp add: tag_requiresLayout_def truthy_def)

lemma tag_prop_eq:
  "tag_prop d (h, m) =
     (h \<or> style_prop d \<noteq> None,
      m\<lparr>meta_prop := (case style_prop d of None \<Rightarrow> meta_prop m | Some v \<Rightarrow> Some v)\<rparr>)"
  by (simp add: tag_prop_def split: option.split)

lemmas tag_steps = tag_isDynamic_eq tag_variables_eq tag_media_eq tag_pseudoClasses_eq
  tag_animations_eq tag_container_eq tag_containerQuery_eq tag_transition_eq
  tag_requiresLayout_eq tag_prop_eq

lemma buildMeta_hasMeta: "fst (buildMeta amap d) = hasDynamicField d"
  by (simp add: buildMeta_def Let_def tag_steps hasDynamicField_def del: not_None_eq) blast

lemma buildMeta_meta: "snd (buildMeta amap d) = expectedMeta amap d"
  unfolding buildMeta_def Let_def tag_steps snd_conv expectedMeta_def emptyMeta_def
  apply (simp add: option_case_id map_option_case del: not_None_eq cong: option.case_cong if_cong)
  done

lemma buildMeta_eq: "buildMeta amap d = (hasDynamicField d, expectedMeta amap d)"
  using buildMeta_hasMeta[of amap d] buildMeta_meta[of amap d] by (cases "buildMeta amap d") simp

subsection \<open>One descriptor\<close>

lemma tagStyle_fst: "fst (tagStyle name d s) = style d"
  by (simp add: tagStyle_def Let_def split: prod.split)

lemma tagStyle_outside: "outside_tagging (snd (tagStyle name d s)) = outside_tagging s"
  by (simp add: tagStyle_def Let_def outside_tagging_def split: prod.split option.split)

lemma tagStyle_nextArray: "nextArray (snd (tagStyle name d s)) = nextArray s"
  by (simp add: tagStyle_def Let_def split: prod.split option.split)

lemma tagStyle_meta:
  "styleMetaMap (snd (tagStyle name d s)) =
     (if hasDynamicField d
      then (styleMetaMap s)(StyleObj (style d) \<mapsto> expectedMeta (animationMap s) d)
      else styleMetaMap s)"
  by (simp add: tagStyle_def Let_def buildMeta_eq split: option.split)

lemma tagStyle_warnings:
  "warnings (snd (tagStyle name d s)) =
     (case style_warnings d of
        None \<Rightarrow> warnings s
      | Some w \<Rightarrow> if production s then warnings s else (warnings s)(name \<mapsto> w))"
  by (simp add: tagStyle_def Let_def buildMeta_eq split: option.split)

lemma tagStyle_has:
  "(styleMetaMap (snd (tagStyle name d s)) k \<noteq> None) =
     (styleMetaMap s k \<noteq> None \<or> (StyleObj (style d) = k \<and> hasDynamicField d))"
  by (auto simp: tagStyle_meta)

subsection \<open>The elements of an array\<close>

lemma tagEach_Cons:
  "tagEach name (x # xs) b s =
     (style x # fst (tagEach name xs (b \<or> styleMetaMap (snd (tagStyle name x s)) (StyleObj (style x)) \<noteq> None) (snd (tagStyle name x s))),
      snd (tagEach name xs (b \<or> styleMetaMap (snd (tagStyle name x s)) (StyleObj (style x)) \<noteq> None) (snd (tagStyle name x s))))"
  using tagStyle_fst[of name x s]
  by (cases "tagStyle name x s") (simp add: Let_def split: prod.split)

lemma tagEach_fst: "fst (tagEach name xs b s) = map style xs"
  by (induction xs arbitrary: b s) (simp_all add: tagEach_Cons del: tagEach.simps(2))

lemma tagEach_outside: "outside_tagging (snd (snd (tagEach name xs b s))) = outside_tagging s"
  by (induction xs arbitrary: b s) (simp_all add: tagEach_Cons tagStyle_outside del: tagEach.simps(2))

lemma tagEach_nextArray: "nextArray (snd (snd (tagEach name xs b s))) = nextArray s"
  by (induction xs arbitrary: b s) (simp_all add: tagEach_Cons tagStyle_nextArray del: tagEach.simps(2))

lemma tagEach_has:
  "(styleMetaMap (snd (snd (tagEach name xs b s))) k \<noteq> None) =
     (styleMetaMap s k \<noteq> None \<or> (\<exists>x \<in> set xs. StyleObj (style x) = k \<and> hasDynamicField x))"
proof (induction xs arbitrary: b s)
  case Nil
  show ?case by simp
next
  case (Cons x xs)
  show ?case
    unfolding tagEach_Cons snd_conv Cons.IH tagStyle_has
    by auto
qed

lemma tagEach_elsewhere:
  "k \<notin> StyleObj ` style ` set xs \<Longrightarrow> styleMetaMap (snd (snd (tagEach name xs b s))) k = styleMetaMap s k"
proof (induction xs arbitrary: b s)
  case Nil
  show ?case by simp
next
  case (Cons x xs)
  then show ?case
    unfolding tagEach_Cons snd_conv
    by (auto simp: tagStyle_meta)
qed

lemma tagEach_didTag:
  "fst (snd (tagEach name xs b s)) =
     (b \<or> (\<exists>x \<in> set xs. styleMetaMap (snd (snd (tagEach name xs b s))) (StyleObj (style x)) \<noteq> None))"
proof (induction xs arbitrary: b s)
  case Nil
  show ?case by simp
next
  case (Cons x xs)
  let ?s1 = "snd (tagStyle name x s)"
  let ?b1 = "b \<or> styleMetaMap ?s1 (StyleObj (style x)) \<noteq> None"
  let ?fin = "snd (snd (tagEach name xs ?b1 ?s1))"
  have ih: "fst (snd (tagEach name xs ?b1 ?s1)) =
      (?b1 \<or> (\<exists>y \<in> set xs. styleMetaMap ?fin (StyleObj (style y)) \<noteq> None))"
    by (rule Cons.IH)
  have key: "(styleMetaMap ?fin (StyleObj (style x)) \<noteq> None) =
      (styleMetaMap ?s1 (StyleObj (style x)) \<noteq> None
        \<or> (\<exists>y \<in> set xs. StyleObj (style y) = StyleObj (style x) \<and> hasDynamicField y))"
    by (rule tagEach_has)
  have later: "\<exists>y \<in> set xs. styleMetaMap ?fin (StyleObj (style y)) \<noteq> None"
    if "y \<in> set xs" "StyleObj (style y) = StyleObj (style x)" "hasDynamicField y" for y
    using that tagEach_has[of name xs ?b1 ?s1 "StyleObj (style y)"] by blast
  have lhs: "fst (snd (tagEach name (x # xs) b s)) =
      (?b1 \<or> (\<exists>y \<in> set xs. styleMetaMap ?fin (StyleObj (style y)) \<noteq> None))"
    by (simp only: tagEach_Cons snd_conv fst_conv ih)
  have fin: "snd (snd (tagEach name (x # xs) b s)) = ?fin"
    by (simp only: tagEach_Cons snd_conv)
  have rhs: "(\<exists>y \<in> set (x # xs). styleMetaMap ?fin (StyleObj (style y)) \<noteq> None) =
      (styleMetaMap ?fin (StyleObj (style x)) \<noteq> None
        \<or> (\<exists>y \<in> set xs. styleMetaMap ?fin (StyleObj (style y)) \<noteq> None))"
    by (simp only: list.set bex_simps ball_simps insert_iff)
  show ?case
    unfolding lhs fin rhs using key later by blast
qed

subsection \<open>tagStyles on either kind of argument\<close>

lemma tagStyles_Single:
  "tagStyles name (Single d) s = (Style (style d), snd (tagStyle name d s))"
  using tagStyle_fst[of name d s]
  by (cases "tagStyle name d s") (simp add: tagStyles_def)

lemma tagStyles_Many_fst:
  "fst (tagStyles name (Many a xs) s) = StyleArray (Mapped (nextArray s)) (map style xs)"
  using tagEach_fst[of name xs False "s\<lparr>nextArray := Suc (nextArray s)\<rparr>"]
  by (cases "tagEach name xs False (s\<lparr>nextArray := Suc (nextArray s)\<rparr>)")
     (simp add: tagStyles_def Let_def)

lemma tagStyles_Many_snd:
  "snd (tagStyles name (Many a xs) s) =
     (if fst (snd (tagEach name xs False (s\<lparr>nextArray := Suc (nextArray s)\<rparr>)))
      then (snd (snd (tagEach name xs False (s\<lparr>nextArray := Suc (nextArray s)\<rparr>))))
             \<lparr>styleMetaMap := (styleMetaMap (snd (snd (tagEach name xs False (s\<lparr>nextArray := Suc (nextArray s)\<rparr>)))))
                 (ArrayObj (Mapped (nextArray s)) \<mapsto> emptyMeta)\<rparr>
      else snd (snd (tagEach name xs False (s\<lparr>nextArray := Suc (nextArray s)\<rparr>))))"
  by (cases "tagEach name xs False (s\<lparr>nextArray := Suc (nextArray s)\<rparr>)")
     (simp add: tagStyles_def Let_def)

lemma outside_tagging_upd [simp]:
  "outside_tagging (s\<lparr>styleMetaMap := m\<rparr>) = outside_tagging s"
  "outside_tagging (s\<lparr>nextArray := n\<rparr>) = outside_tagging s"
  "outside_tagging (s\<lparr>warnings := w\<rparr>) = outside_tagging s"
  by (simp_all add: outside_tagging_def)

lemma tagStyles_outside: "outside_tagging (snd (tagStyles name x s)) = outside_tagging s"
  by (cases x) (simp_all add: tagStyles_Single tagStyle_outside tagStyles_Many_snd tagEach_outside)

lemma tagStyles_nextArray:
  "nextArray (snd (tagStyles name x s)) = (case x of Single d \<Rightarrow> nextArray s | Many a xs \<Rightarrow> Suc (nextArray s))"
  by (cases x) (simp_all add: tagStyles_Single tagStyle_nextArray tagStyles_Many_snd tagEach_nextArray)

lemma tagEach_array_key:
  "styleMetaMap (snd (snd (tagEach name xs b s))) (ArrayObj a) = styleMetaMap s (ArrayObj a)"
  by (rule tagEach_elsewhere) auto

lemma tagStyles_other_arrays:
  "b \<noteq> Mapped (nextArray s) \<Longrightarrow>
     styleMetaMap (snd (tagStyles name x s)) (ArrayObj b) = styleMetaMap s (ArrayObj b)"
  by (cases x) (simp_all add: tagStyles_Single tagStyle_meta tagStyles_Many_snd tagEach_array_key)

lemma tagStyles_Many_style_key:
  "styleMetaMap (snd (tagStyles name (Many a xs) s)) (StyleObj r) =
   styleMetaMap (snd (snd (tagEach name xs False (s\<lparr>nextArray := Suc (nextArray s)\<rparr>)))) (StyleObj r)"
  by (simp add: tagStyles_Many_snd)

subsection \<open>Field names\<close>

lemma singleton_if_empty: "((if c then {x} else {}) = {}) = (\<not> c)" "((if c then {} else {x}) = {}) = c"
  by simp_all

lemma mem_singleton_if:
  "(y \<in> (if c then {x} else {})) = (c \<and> y = x)" "(y \<in> (if c then {} else {x})) = (\<not> c \<and> y = x)"
  by simp_all

lemma media_fields_empty:
  "((case m of None \<Rightarrow> {} | Some x \<Rightarrow> if x = [] then {} else {F_media}) = {})
     = (\<not> (case m of None \<Rightarrow> False | Some x \<Rightarrow> x \<noteq> []))"
  by (cases m) simp_all

lemma media_fields_mem:
  "(y \<in> (case m of None \<Rightarrow> {} | Some x \<Rightarrow> if x = [] then {} else {F_media}))
     = ((case m of None \<Rightarrow> False | Some x \<Rightarrow> x \<noteq> []) \<and> y = F_media)"
  by (cases m) simp_all

lemma media_meta_None:
  "((case m of None \<Rightarrow> None | Some x \<Rightarrow> if x = [] then None else Some x) = None)
     = (\<not> (case m of None \<Rightarrow> False | Some x \<Rightarrow> x \<noteq> []))"
  by (cases m) simp_all

lemma derivedFields_mem:
  "(y \<in> derivedFields amap d) =
     ((case animations d of None \<Rightarrow> False | Some a \<Rightarrow> animationsRequireLayout amap a) \<and> y = F_requiresLayout)"
  by (cases "animations d") (simp_all add: derivedFields_def)

lemma presentFields_nonempty: "hasDynamicField d = (presentFields d \<noteq> {})"
  unfolding hasDynamicField_def presentFields_def
  by (simp only: Un_empty singleton_if_empty media_fields_empty de_Morgan_conj not_not) blast

lemma expectedMeta_sel:
  "meta_variables (expectedMeta amap d) = variables d"
  "meta_media (expectedMeta amap d) = (case media d of None \<Rightarrow> None | Some m \<Rightarrow> if m = [] then None else Some m)"
  "meta_pseudoClasses (expectedMeta amap d) = pseudoClasses d"
  "meta_animations (expectedMeta amap d) = animations d"
  "meta_requiresLayout (expectedMeta amap d) =
     (if truthy (requiresLayout d)
         \<or> (case animations d of None \<Rightarrow> False | Some a \<Rightarrow> animationsRequireLayout amap a)
      then Some True else None)"
  "meta_container (expectedMeta amap d) = map_option normalizeContainer (container d)"
  "meta_containerQuery (expectedMeta amap d) = containerQuery d"
  "meta_transition (expectedMeta amap d) = transition d"
  "meta_prop (expectedMeta amap d) = style_prop d"
  by (simp_all add: expectedMeta_def)

lemma layout_flag_None: "((if c then Some True else None) = None) = (\<not> c)"
  by simp

lemma metaFields_mem:
  "(y \<in> metaFields (expectedMeta amap d)) =
     ((variables d \<noteq> None \<and> y = F_variables)
      \<or> ((case media d of None \<Rightarrow> False | Some x \<Rightarrow> x \<noteq> []) \<and> y = F_media)
      \<or> (pseudoClasses d \<noteq> None \<and> y = F_pseudoClasses)
      \<or> (animations d \<noteq> None \<and> y = F_animations)
      \<or> (container d \<noteq> None \<and> y = F_container)
      \<or> (containerQuery d \<noteq> None \<and> y = F_containerQuery)
      \<or> (transition d \<noteq> None \<and> y = F_transition)
      \<or> ((truthy (requiresLayout d)
           \<or> (case animations d of None \<Rightarrow> False | Some a \<Rightarrow> animationsRequireLayout amap a))
          \<and> y = F_requiresLayout)
      \<or> (style_prop d \<noteq> None \<and> y = F_prop))"
  unfolding metaFields_def expectedMeta_sel
  by (simp only: Un_iff mem_singleton_if media_meta_None layout_flag_None not_not
        option.map_disc_iff disj_assoc)

lemma presentFields_mem:
  "(y \<in> presentFields d) =
     ((truthy (isDynamic d) \<and> y = F_isDynamic)
      \<or> (variables d \<noteq> None \<and> y = F_variables)
      \<or> ((case media d of None \<Rightarrow> False | Some x \<Rightarrow> x \<noteq> []) \<and> y = F_media)
      \<or> (pseudoClasses d \<noteq> None \<and> y = F_pseudoClasses)
      \<or> (animations d \<noteq> None \<and> y = F_animations)
      \<or> (container d \<noteq> None \<and> y = F_container)
      \<or> (containerQuery d \<noteq> None \<and> y = F_containerQuery)
      \<or> (transition d \<noteq> None \<and> y = F_transition)
      \<or> (truthy (requiresLayout d) \<and> y = F_requiresLayout)
      \<or> (style_prop d \<noteq> None \<and> y = F_prop))"
  unfolding presentFields_def
  by (simp only: Un_iff mem_singleton_if media_fields_mem disj_assoc)

lemma metaFields_expected:
  "metaFields (expectedMeta amap d) = (presentFields d - {F_isDynamic}) \<union> derivedFields amap d"
proof (rule set_eqI)
  fix y
  show "(y \<in> metaFields (expectedMeta amap d))
      = (y \<in> (presentFields d - {F_isDynamic}) \<union> derivedFields amap d)"
    unfolding Un_iff Diff_iff metaFields_mem presentFields_mem derivedFields_mem
    by (cases y) auto
qed

section \<open>The claims about the tagger\<close>

text \<open>
  Claim C1, as the code has it. Tagging a single descriptor writes the side table at the
  identity of its style value exactly when a dynamic-relevant field is set (a flag counts
  when it is true, \<^verbatim>\<open>media\<close> when it is not empty), and writes nothing otherwise. The record
  written holds each of \<^verbatim>\<open>variables\<close>, \<^verbatim>\<open>media\<close>, \<^verbatim>\<open>pseudoClasses\<close>, \<^verbatim>\<open>animations\<close>,
  \<^verbatim>\<open>container\<close>, \<^verbatim>\<open>containerQuery\<close>, \<^verbatim>\<open>transition\<close>, \<^verbatim>\<open>requiresLayout\<close> and \<^verbatim>\<open>prop\<close> as the
  input has it, with an empty \<^verbatim>\<open>media\<close> left out, the container type defaulted and the
  derived layout flag added. Its fields are the fields set on the input other than
  \<^verbatim>\<open>isDynamic\<close>, which causes the entry and is not recorded in it.
\<close>

theorem tagStyles_single_metadata:
  "styleMetaMap (snd (tagStyles name (Single d) s)) =
     (if hasDynamicField d
      then (styleMetaMap s)(StyleObj (style d) \<mapsto> expectedMeta (animationMap s) d)
      else styleMetaMap s)
   \<and> hasDynamicField d = (presentFields d \<noteq> {})
   \<and> metaFields (expectedMeta (animationMap s) d)
       = (presentFields d - {F_isDynamic}) \<union> derivedFields (animationMap s) d"
  by (simp only: tagStyles_Single snd_conv tagStyle_meta presentFields_nonempty metaFields_expected simp_thms)

text \<open>A descriptor with a pseudo-class query gets exactly that field; a plain one gets no entry.\<close>

theorem tagStyles_single_metadata_witness:
  "styleMetaMap (snd (tagStyles ''btn'' (Single hoverStyle) (initial examplePlatform False))) (StyleObj 1)
     = Some (emptyMeta\<lparr>meta_pseudoClasses := Some ''hover''\<rparr>)
   \<and> presentFields hoverStyle = {F_pseudoClasses}
   \<and> styleMetaMap (snd (tagStyles ''box'' (Single (plainStyle 3)) (initial examplePlatform False))) (StyleObj 3)
     = None
   \<and> presentFields (plainStyle 3) = {}"
  using tagStyles_single_metadata[of "''btn''" hoverStyle "initial examplePlatform False"]
        tagStyles_single_metadata[of "''box''" "plainStyle 3" "initial examplePlatform False"]
  by (simp add: hasDynamicField_def expectedMeta_def emptyMeta_def presentFields_def
        hoverStyle_def plainStyle_def initial_def truthy_def)

text \<open>
  Claim C1 as written fails for a descriptor whose only dynamic field is \<^verbatim>\<open>isDynamic\<close>:
  line 134 sets \<^verbatim>\<open>hasMeta\<close> and copies nothing, so the entry installed is \<^verbatim>\<open>{}\<close> and does
  not contain the field present on the input.
\<close>

theorem isDynamic_only_counterexample:
  "styleMetaMap (snd (tagStyles ''btn'' (Single dynamicOnly) (initial examplePlatform False))) (StyleObj 0)
     = Some emptyMeta
   \<and> metaFields emptyMeta \<noteq>
       presentFields dynamicOnly \<union> derivedFields (animationMap (initial examplePlatform False)) dynamicOnly"
  by (simp add: tagStyles_Single tagStyle_meta hasDynamicField_def expectedMeta_def emptyMeta_def
        metaFields_def presentFields_def derivedFields_def dynamicOnly_def plainStyle_def
        initial_def truthy_def)

subsection \<open>The sentinel of a style array\<close>

lemma array_sentinel_after:
  assumes fresh: "styleMetaMap s (ArrayObj (Mapped (nextArray s))) = None"
  shows "styleMetaMap (snd (tagStyles name (Many a xs) s)) (ArrayObj (Mapped (nextArray s))) =
           (if \<exists>x \<in> set xs. styleMetaMap (snd (tagStyles name (Many a xs) s)) (StyleObj (style x)) \<noteq> None
            then Some emptyMeta else None)"
proof -
  let ?s0 = "s\<lparr>nextArray := Suc (nextArray s)\<rparr>"
  let ?e = "tagEach name xs False ?s0"
  let ?fin = "snd (snd ?e)"
  let ?res = "snd (tagStyles name (Many a xs) s)"
  have did: "fst (snd ?e) = (\<exists>x \<in> set xs. styleMetaMap ?fin (StyleObj (style x)) \<noteq> None)"
    using tagEach_didTag[of name xs False ?s0] by simp
  have arr0: "styleMetaMap ?fin (ArrayObj (Mapped (nextArray s))) = None"
    using tagEach_array_key[of name xs False ?s0 "Mapped (nextArray s)"] fresh by simp
  have arr: "styleMetaMap ?res (ArrayObj (Mapped (nextArray s))) =
      (if fst (snd ?e) then Some emptyMeta else None)"
    using arr0 by (simp add: tagStyles_Many_snd)
  have sty: "styleMetaMap ?res (StyleObj r) = styleMetaMap ?fin (StyleObj r)" for r
    by (rule tagStyles_Many_style_key)
  show ?thesis
    unfolding arr sty did by (rule refl)
qed

lemma array_elements_after:
  "(\<exists>x \<in> set xs. styleMetaMap (snd (tagStyles name (Many a xs) s)) (StyleObj (style x)) \<noteq> None)
     = (\<exists>x \<in> set xs. hasDynamicField x \<or> styleMetaMap s (StyleObj (style x)) \<noteq> None)"
proof -
  let ?s0 = "s\<lparr>nextArray := Suc (nextArray s)\<rparr>"
  let ?fin = "snd (snd (tagEach name xs False ?s0))"
  have dyn: "(styleMetaMap ?fin (StyleObj (style x)) \<noteq> None) =
      (styleMetaMap s (StyleObj (style x)) \<noteq> None
        \<or> (\<exists>y \<in> set xs. StyleObj (style y) = StyleObj (style x) \<and> hasDynamicField y))"
    for x :: ExtractedStyle
    using tagEach_has[of name xs False ?s0 "StyleObj (style x)"] by simp
  show ?thesis
    unfolding tagStyles_Many_style_key using dyn by blast
qed

lemma array_sentinel_before:
  assumes fresh: "styleMetaMap s (ArrayObj (Mapped (nextArray s))) = None"
  shows "styleMetaMap (snd (tagStyles name (Many a xs) s)) (ArrayObj (Mapped (nextArray s))) =
           (if \<exists>x \<in> set xs. hasDynamicField x \<or> styleMetaMap s (StyleObj (style x)) \<noteq> None
            then Some emptyMeta else None)"
  using array_sentinel_after[OF fresh, of name a xs] array_elements_after[of xs name a s]
  by (simp only:)

text \<open>
  Claim C3, as the code has it. The array returned for a style array is a new object, so
  it has no entry before the call. After the call its entry is the empty record when the
  style value of some element has an entry in the side table, and it has no entry
  otherwise. An element's style value has an entry when the element has a
  dynamic-relevant field set, or when an earlier call left an entry for that style value.
\<close>

theorem tagStyles_array_sentinel:
  assumes fresh: "styleMetaMap s (ArrayObj (Mapped (nextArray s))) = None"
  shows "styleMetaMap (snd (tagStyles name (Many a xs) s)) (ArrayObj (Mapped (nextArray s))) =
           (if \<exists>x \<in> set xs. styleMetaMap (snd (tagStyles name (Many a xs) s)) (StyleObj (style x)) \<noteq> None
            then Some emptyMeta else None)
       \<and> styleMetaMap (snd (tagStyles name (Many a xs) s)) (ArrayObj (Mapped (nextArray s))) =
           (if \<exists>x \<in> set xs. hasDynamicField x \<or> styleMetaMap s (StyleObj (style x)) \<noteq> None
            then Some emptyMeta else None)"
  using array_sentinel_after[OF fresh, of name a xs] array_sentinel_before[OF fresh, of name a xs]
  by (rule conjI)

text \<open>An array with one dynamic element gets the sentinel; an array of plain styles gets none.\<close>

theorem tagStyles_array_sentinel_witness:
  "styleMetaMap (initial examplePlatform False) (ArrayObj (Mapped (nextArray (initial examplePlatform False)))) = None
   \<and> styleMetaMap (snd (tagStyles ''btn'' (Many (Given 0) [plainStyle 3, hoverStyle]) (initial examplePlatform False)))
        (ArrayObj (Mapped 0)) = Some emptyMeta
   \<and> styleMetaMap (snd (tagStyles ''box'' (Many (Given 1) [plainStyle 3, plainStyle 4]) (initial examplePlatform False)))
        (ArrayObj (Mapped 0)) = None"
proof -
  let ?s = "initial examplePlatform False"
  have fresh: "styleMetaMap ?s (ArrayObj (Mapped (nextArray ?s))) = None"
    by (simp add: initial_def)
  have n0: "nextArray ?s = 0"
    by (simp add: initial_def)
  have none: "styleMetaMap ?s k = None" for k
    by (simp add: initial_def)
  have dyn: "hasDynamicField hoverStyle" "\<not> hasDynamicField (plainStyle 3)" "\<not> hasDynamicField (plainStyle 4)"
    by (simp_all add: hasDynamicField_def hoverStyle_def plainStyle_def truthy_def)
  have a: "styleMetaMap (snd (tagStyles ''btn'' (Many (Given 0) [plainStyle 3, hoverStyle]) ?s))
        (ArrayObj (Mapped (nextArray ?s))) =
      (if \<exists>x \<in> set [plainStyle 3, hoverStyle]. hasDynamicField x \<or> styleMetaMap ?s (StyleObj (style x)) \<noteq> None
       then Some emptyMeta else None)"
    using tagStyles_array_sentinel[OF fresh, of "''btn''" "Given 0" "[plainStyle 3, hoverStyle]"] by (rule conjunct2)
  have b: "styleMetaMap (snd (tagStyles ''box'' (Many (Given 1) [plainStyle 3, plainStyle 4]) ?s))
        (ArrayObj (Mapped (nextArray ?s))) =
      (if \<exists>x \<in> set [plainStyle 3, plainStyle 4]. hasDynamicField x \<or> styleMetaMap ?s (StyleObj (style x)) \<noteq> None
       then Some emptyMeta else None)"
    using tagStyles_array_sentinel[OF fresh, of "''box''" "Given 1" "[plainStyle 3, plainStyle 4]"] by (rule conjunct2)
  show ?thesis
    using a b fresh by (simp add: n0 dyn none)
qed

text \<open>
  Claim C3 as written fails when the style value of a plain element already has an entry.
  \<^verbatim>\<open>create\<close> of a descriptor with a pseudo-class query leaves an entry for its style value.
  Tagging an array of two plain descriptors, the first with that same style value, then
  installs the sentinel, although neither element has a dynamic field and the call writes
  no entry for either: line 121 tests the side table, not what this call installed.
\<close>

theorem earlier_entry_sentinel_counterexample:
  "styleMetaMap (snd (tagStyles ''b'' (Many (Given 0) [plainStyle 1, plainStyle 3])
        (snd (create [(''a'', hoverStyle)] (initial examplePlatform False))))) (ArrayObj (Mapped 0))
     = Some emptyMeta
   \<and> \<not> hasDynamicField (plainStyle 1)
   \<and> \<not> hasDynamicField (plainStyle 3)
   \<and> styleMetaMap (snd (tagStyles ''b'' (Many (Given 0) [plainStyle 1, plainStyle 3])
        (snd (create [(''a'', hoverStyle)] (initial examplePlatform False))))) (StyleObj 1)
     = styleMetaMap (snd (create [(''a'', hoverStyle)] (initial examplePlatform False))) (StyleObj 1)
   \<and> styleMetaMap (snd (tagStyles ''b'' (Many (Given 0) [plainStyle 1, plainStyle 3])
        (snd (create [(''a'', hoverStyle)] (initial examplePlatform False))))) (StyleObj 3)
     = styleMetaMap (snd (create [(''a'', hoverStyle)] (initial examplePlatform False))) (StyleObj 3)"
proof -
  let ?s1 = "snd (create [(''a'', hoverStyle)] (initial examplePlatform False))"
  let ?xs = "[plainStyle 1, plainStyle 3]"
  have dyn: "hasDynamicField hoverStyle" "\<not> hasDynamicField (plainStyle 1)" "\<not> hasDynamicField (plainStyle 3)"
    by (simp_all add: hasDynamicField_def hoverStyle_def plainStyle_def truthy_def)
  have st: "style hoverStyle = 1" "style (plainStyle 1) = 1" "style (plainStyle 3) = 3"
    by (simp_all add: hoverStyle_def plainStyle_def)
  have m: "styleMetaMap ?s1 = [StyleObj 1 \<mapsto> expectedMeta Map.empty hoverStyle]"
    by (simp add: create_def tagStyles_Single tagStyle_meta broadcast_def dyn st initial_def)
  have n: "nextArray ?s1 = 0"
    by (simp add: create_def tagStyles_Single tagStyle_nextArray broadcast_def initial_def)
  have fresh: "styleMetaMap ?s1 (ArrayObj (Mapped (nextArray ?s1))) = None"
    by (simp add: m)
  have sentinel: "styleMetaMap (snd (tagStyles ''b'' (Many (Given 0) ?xs) ?s1)) (ArrayObj (Mapped 0)) = Some emptyMeta"
    using array_sentinel_before[OF fresh, of "''b''" "Given 0" ?xs]
    by (simp add: n m plainStyle_def)
  have same: "styleMetaMap (snd (tagStyles ''b'' (Many (Given 0) ?xs) ?s1)) (StyleObj r) = styleMetaMap ?s1 (StyleObj r)"
    for r
    by (simp add: tagStyles_Many_snd tagEach_Cons tagStyle_meta hasDynamicField_def plainStyle_def
          truthy_def del: tagEach.simps(2))
  show ?thesis
    using sentinel dyn(2,3) same[of 1] same[of 3] by simp
qed

subsection \<open>Identities\<close>

lemma allocated_not_next: "allocated s a \<Longrightarrow> Mapped (nextArray s) \<noteq> a"
  by (cases a) (auto simp: allocated_def)

lemma next_not_allocated: "\<not> allocated s (Mapped (nextArray s))"
  by (simp add: allocated_def)

lemma allocated_untouched:
  assumes "allocated s a"
  shows "styleMetaMap (snd (tagStyles name x s)) (ArrayObj a) = styleMetaMap s (ArrayObj a)"
proof -
  have "a \<noteq> Mapped (nextArray s)"
    using allocated_not_next[OF assms] by blast
  then show ?thesis
    by (rule tagStyles_other_arrays)
qed

text \<open>
  Claim C7, as the code has it. Tagging a single descriptor returns its \<^verbatim>\<open>style\<close> value
  itself. Tagging an array returns the \<^verbatim>\<open>style\<close> values of its elements, in their order,
  in an array that \<^verbatim>\<open>styles.map\<close> allocates: an object that did not exist before the call,
  so not the input array, and the side table has no write at the input array. Nothing but
  the side table, the warnings and the allocation of that array changes, and no entry of
  another array is touched.
\<close>

theorem tagStyles_preserves_identity:
  "fst (tagStyles name (Single d) s) = Style (style d)
   \<and> fst (tagStyles name (Many a xs) s) = StyleArray (Mapped (nextArray s)) (map style xs)
   \<and> \<not> allocated s (Mapped (nextArray s))
   \<and> (allocated s a \<longrightarrow>
         Mapped (nextArray s) \<noteq> a
         \<and> styleMetaMap (snd (tagStyles name (Many a xs) s)) (ArrayObj a) = styleMetaMap s (ArrayObj a))
   \<and> outside_tagging (snd (tagStyles name x s)) = outside_tagging s
   \<and> (\<forall>b. b \<noteq> Mapped (nextArray s) \<longrightarrow>
         styleMetaMap (snd (tagStyles name x s)) (ArrayObj b) = styleMetaMap s (ArrayObj b))"
  using allocated_not_next[of s a] allocated_untouched[of s a name "Many a xs"]
  by (simp add: tagStyles_Single tagStyles_Many_fst tagStyles_outside tagStyles_other_arrays
        next_not_allocated)

text \<open>An array the caller built, and then the array returned for it given as an argument.\<close>

theorem tagStyles_preserves_identity_witness:
  "fst (tagStyles ''btn'' (Single hoverStyle) (initial examplePlatform False)) = Style 1
   \<and> allocated (initial examplePlatform False) (Given 0)
   \<and> fst (tagStyles ''btn'' (Many (Given 0) [plainStyle 3, hoverStyle]) (initial examplePlatform False))
       = StyleArray (Mapped 0) [3, 1]
   \<and> styleMetaMap (snd (tagStyles ''btn'' (Many (Given 0) [plainStyle 3, hoverStyle]) (initial examplePlatform False)))
        (ArrayObj (Given 0)) = None
   \<and> allocated (snd (tagStyles ''btn'' (Many (Given 0) [hoverStyle]) (initial examplePlatform False))) (Mapped 0)
   \<and> fst (tagStyles ''btn'' (Many (Mapped 0) [hoverStyle])
         (snd (tagStyles ''btn'' (Many (Given 0) [hoverStyle]) (initial examplePlatform False))))
       = StyleArray (Mapped 1) [1]"
proof -
  let ?s = "initial examplePlatform False"
  let ?t = "snd (tagStyles ''btn'' (Many (Given 0) [hoverStyle]) ?s)"
  have n0: "nextArray ?s = 0" "styleMetaMap ?s (ArrayObj (Given 0)) = None"
    by (simp_all add: initial_def)
  have n1: "nextArray ?t = 1"
    by (simp add: tagStyles_nextArray n0)
  have g: "allocated ?s (Given 0)" and m: "allocated ?t (Mapped 0)"
    by (simp_all add: allocated_def n1)
  have st: "style hoverStyle = 1" "style (plainStyle 3) = 3"
    by (simp_all add: hoverStyle_def plainStyle_def)
  note a = tagStyles_preserves_identity[of "''btn''" hoverStyle ?s "Given 0" "[plainStyle 3, hoverStyle]"]
  note b = tagStyles_preserves_identity[of "''btn''" hoverStyle ?t "Mapped 0" "[hoverStyle]"]
  have 1: "fst (tagStyles ''btn'' (Single hoverStyle) ?s) = Style 1"
    using a st by simp
  have 2: "fst (tagStyles ''btn'' (Many (Given 0) [plainStyle 3, hoverStyle]) ?s) = StyleArray (Mapped 0) [3, 1]"
    using a st n0 by simp
  have 3: "styleMetaMap (snd (tagStyles ''btn'' (Many (Given 0) [plainStyle 3, hoverStyle]) ?s)) (ArrayObj (Given 0)) = None"
    using a g n0 by simp
  have 4: "fst (tagStyles ''btn'' (Many (Mapped 0) [hoverStyle]) ?t) = StyleArray (Mapped 1) [1]"
    using b st n1 by simp
  show ?thesis
    using 1 g 2 3 m 4 by blast
qed

text \<open>
  Claim C7 as written fails for the array: the array returned is not the array given.
  \<^verbatim>\<open>styles.map\<close> at line 119 allocates the result, so the identity of the array changes from
  input to output, also when the argument is an array that an earlier call returned.
\<close>

theorem returned_array_is_new_counterexample:
  "fst (tagStyles ''btn'' (Many (Given 0) [plainStyle 3, hoverStyle]) (initial examplePlatform False))
     = StyleArray (Mapped 0) [3, 1]
   \<and> Mapped 0 \<noteq> Given 0
   \<and> fst (tagStyles ''btn'' (Many (Mapped 0) [hoverStyle])
         (snd (tagStyles ''btn'' (Many (Given 0) [hoverStyle]) (initial examplePlatform False))))
       = StyleArray (Mapped 1) [1]
   \<and> Mapped 1 \<noteq> Mapped 0"
  by (simp add: tagStyles_Many_fst tagStyles_nextArray hoverStyle_def plainStyle_def initial_def)

section \<open>Registration, reset and subscriptions\<close>

subsection \<open>The loops of register\<close>

lemma setKeyframes_eq:
  "setKeyframes kfs s = s\<lparr>animationMap := foldl (\<lambda>m (n, k). m(n \<mapsto> k)) (animationMap s) kfs\<rparr>"
proof (induction kfs arbitrary: s)
  case Nil
  show ?case by simp
next
  case (Cons e kfs)
  obtain n k where e: "e = (n, k)" by (cases e)
  show ?case unfolding e by (simp add: Cons.IH)
qed

lemma outside_loops_upd [simp]:
  "outside_loops (s\<lparr>styleMetaMap := m\<rparr>) = outside_loops s"
  "outside_loops (s\<lparr>nextArray := n\<rparr>) = outside_loops s"
  "outside_loops (s\<lparr>warnings := w\<rparr>) = outside_loops s"
  "outside_loops (s\<lparr>globalStyles := g\<rparr>) = outside_loops s"
  "outside_loops (s\<lparr>animationMap := a\<rparr>) = outside_loops s"
  by (simp_all add: outside_loops_def)

lemma outside_tagging_loops:
  "outside_tagging t = outside_tagging s \<Longrightarrow> outside_loops t = outside_loops s"
  by (simp add: outside_tagging_def outside_loops_def)

lemma tagStyles_loops: "outside_loops (snd (tagStyles name x s)) = outside_loops s"
  by (rule outside_tagging_loops) (rule tagStyles_outside)

lemma tagStyles_animationMap: "animationMap (snd (tagStyles name x s)) = animationMap s"
  using tagStyles_outside[of name x s] by (simp add: outside_tagging_def)

lemma tagStyles_globalStyles: "globalStyles (snd (tagStyles name x s)) = globalStyles s"
  using tagStyles_outside[of name x s] by (simp add: outside_tagging_def)

lemma setDeclarations_Cons:
  "setDeclarations ((name, x) # rest) s =
     setDeclarations rest ((snd (tagStyles name x s))\<lparr>globalStyles :=
        (globalStyles (snd (tagStyles name x s)))(name \<mapsto> fst (tagStyles name x s))\<rparr>)"
  by (cases "tagStyles name x s") simp

lemma setDeclarations_loops: "outside_loops (setDeclarations ds s) = outside_loops s"
proof (induction ds arbitrary: s)
  case Nil
  show ?case by simp
next
  case (Cons e ds)
  obtain n x where e: "e = (n, x)" by (cases e)
  show ?case unfolding e setDeclarations_Cons Cons.IH by (simp add: tagStyles_loops)
qed

lemma setDeclarations_animationMap: "animationMap (setDeclarations ds s) = animationMap s"
proof (induction ds arbitrary: s)
  case Nil
  show ?case by simp
next
  case (Cons e ds)
  obtain n x where e: "e = (n, x)" by (cases e)
  show ?case unfolding e setDeclarations_Cons Cons.IH by (simp add: tagStyles_animationMap)
qed

lemma register_loops:
  "outside_loops (case declarations options of
       Some ds \<Rightarrow> setDeclarations ds (case keyframes options of Some kfs \<Rightarrow> setKeyframes kfs s | None \<Rightarrow> s)
     | None \<Rightarrow> (case keyframes options of Some kfs \<Rightarrow> setKeyframes kfs s | None \<Rightarrow> s)) = outside_loops s"
  by (simp add: setDeclarations_loops setKeyframes_eq split: option.split)

lemma register_unfold:
  "register options s =
     (let s2 = (case declarations options of
                  Some ds \<Rightarrow> setDeclarations ds (case keyframes options of Some kfs \<Rightarrow> setKeyframes kfs s | None \<Rightarrow> s)
                | None \<Rightarrow> (case keyframes options of Some kfs \<Rightarrow> setKeyframes kfs s | None \<Rightarrow> s));
          s3 = (case opt_defaultVariables options of Some v \<Rightarrow> s2\<lparr>defaultVariables := v\<rparr> | None \<Rightarrow> s2);
          s4 = (case opt_defaultDarkVariables options of
                  Some v \<Rightarrow> s3\<lparr>defaultDarkVariables := spread (opt_defaultVariables options) ++ v\<rparr>
                | None \<Rightarrow> s3);
          s5 = (case opt_rootVariables options of
                  Some v \<Rightarrow> s4\<lparr>rootVariables := v ++ defaultVariables s4\<rparr> | None \<Rightarrow> s4);
          s6 = (case opt_rootDarkVariables options of
                  Some v \<Rightarrow> s5\<lparr>rootDarkVariables := spread (opt_rootVariables options) ++ v ++ defaultDarkVariables s5\<rparr>
                | None \<Rightarrow> s5)
      in broadcast s6)"
  by (simp add: register_def Let_def)

lemma register_fields:
  "defaultVariables (register options s) =
     (case opt_defaultVariables options of None \<Rightarrow> defaultVariables s | Some v \<Rightarrow> v)"
  "defaultDarkVariables (register options s) =
     (case opt_defaultDarkVariables options of
        None \<Rightarrow> defaultDarkVariables s
      | Some v \<Rightarrow> spread (opt_defaultVariables options) ++ v)"
  "rootVariables (register options s) =
     (case opt_rootVariables options of
        None \<Rightarrow> rootVariables s
      | Some v \<Rightarrow> v ++ (case opt_defaultVariables options of None \<Rightarrow> defaultVariables s | Some w \<Rightarrow> w))"
  "rootDarkVariables (register options s) =
     (case opt_rootDarkVariables options of
        None \<Rightarrow> rootDarkVariables s
      | Some v \<Rightarrow> spread (opt_rootVariables options) ++ v ++
          (case opt_defaultDarkVariables options of
             None \<Rightarrow> defaultDarkVariables s
           | Some w \<Rightarrow> spread (opt_defaultVariables options) ++ w))"
  "subscriptions (register options s) = subscriptions s"
  "invoked (register options s)
     = invoked s @ map (\<lambda>f. (f, observe (register options s))) (subscriptions s)"
  "production (register options s) = production s"
  using register_loops[where options=options and s=s]
  unfolding register_unfold Let_def broadcast_def outside_loops_def observe_def
  by (simp_all split: option.split)

subsection \<open>Variable scopes\<close>

text \<open>
  Claim C2. A call of \<^verbatim>\<open>register\<close> replaces each scope whose option field is present and
  leaves the others: default-light by the input \<^verbatim>\<open>defaultVariables\<close>; default-dark by the
  input \<^verbatim>\<open>defaultVariables\<close> (nothing when absent) overridden by the input
  \<^verbatim>\<open>defaultDarkVariables\<close>; root-light by the input \<^verbatim>\<open>rootVariables\<close> overridden by the
  default-light scope as it is after the call; root-dark by the input \<^verbatim>\<open>rootVariables\<close>,
  then the input \<^verbatim>\<open>rootDarkVariables\<close>, then the default-dark scope as it is after the
  call. The later operand of \<^verbatim>\<open>++\<close> wins. Registering \<^verbatim>\<open>{a:1}\<close> and dark \<^verbatim>\<open>{b:2}\<close> and
  then root \<^verbatim>\<open>{c:3}\<close> gives the default-dark scope \<^verbatim>\<open>{a:1, b:2}\<close> and the root-light scope
  \<^verbatim>\<open>{c:3, a:1}\<close>, from any state.
\<close>

theorem register_variable_scopes:
  "defaultVariables (register options s) =
     (case opt_defaultVariables options of None \<Rightarrow> defaultVariables s | Some v \<Rightarrow> v)
   \<and> defaultDarkVariables (register options s) =
     (case opt_defaultDarkVariables options of
        None \<Rightarrow> defaultDarkVariables s
      | Some v \<Rightarrow> spread (opt_defaultVariables options) ++ v)
   \<and> rootVariables (register options s) =
     (case opt_rootVariables options of
        None \<Rightarrow> rootVariables s
      | Some v \<Rightarrow> v ++ defaultVariables (register options s))
   \<and> rootDarkVariables (register options s) =
     (case opt_rootDarkVariables options of
        None \<Rightarrow> rootDarkVariables s
      | Some v \<Rightarrow> spread (opt_rootVariables options) ++ v ++ defaultDarkVariables (register options s))
   \<and> defaultDarkVariables (register rootOptions (register defaultsOptions s))
       = [''a'' \<mapsto> Num 1, ''b'' \<mapsto> Num 2]
   \<and> rootVariables (register rootOptions (register defaultsOptions s))
       = [''c'' \<mapsto> Num 3, ''a'' \<mapsto> Num 1]"
proof -
  have ex1: "defaultDarkVariables (register rootOptions (register defaultsOptions s))
      = [''a'' \<mapsto> Num 1, ''b'' \<mapsto> Num 2]"
    by (simp add: register_fields rootOptions_def defaultsOptions_def noOptions_def spread_def)
  have ex2: "rootVariables (register rootOptions (register defaultsOptions s))
      = [''c'' \<mapsto> Num 3, ''a'' \<mapsto> Num 1]"
    by (simp add: register_fields rootOptions_def defaultsOptions_def noOptions_def spread_def)
  have g1: "defaultVariables (register options s) =
      (case opt_defaultVariables options of None \<Rightarrow> defaultVariables s | Some v \<Rightarrow> v)"
    by (rule register_fields)
  have g2: "defaultDarkVariables (register options s) =
      (case opt_defaultDarkVariables options of
         None \<Rightarrow> defaultDarkVariables s
       | Some v \<Rightarrow> spread (opt_defaultVariables options) ++ v)"
    by (rule register_fields)
  have g3: "rootVariables (register options s) =
      (case opt_rootVariables options of
         None \<Rightarrow> rootVariables s
       | Some v \<Rightarrow> v ++ defaultVariables (register options s))"
    by (simp only: register_fields)
  have g4: "rootDarkVariables (register options s) =
      (case opt_rootDarkVariables options of
         None \<Rightarrow> rootDarkVariables s
       | Some v \<Rightarrow> spread (opt_rootVariables options) ++ v ++ defaultDarkVariables (register options s))"
    by (simp only: register_fields)
  show ?thesis
    by (intro conjI) (rule g1, rule g2, rule g3, rule g4, rule ex1, rule ex2)
qed

text \<open>The two registrations of the example, from the module as loaded.\<close>

theorem register_variable_scopes_witness:
  "defaultVariables (register defaultsOptions (initial examplePlatform False)) = [''a'' \<mapsto> Num 1]
   \<and> defaultDarkVariables (register defaultsOptions (initial examplePlatform False))
       = [''a'' \<mapsto> Num 1, ''b'' \<mapsto> Num 2]
   \<and> rootVariables (register rootOptions (register defaultsOptions (initial examplePlatform False)))
       = [''c'' \<mapsto> Num 3, ''a'' \<mapsto> Num 1]"
  using register_variable_scopes[of defaultsOptions "initial examplePlatform False"]
  by (simp add: defaultsOptions_def noOptions_def spread_def)

text \<open>
  Claim C5. With no inherited scope, \<^verbatim>\<open>useVariables\<close> returns the root-light scope when
  the appearance is light and the root-dark scope otherwise. With an inherited scope it
  returns that scope overridden by the default-light or the default-dark scope, so a key
  of the default scope has the default's value. After any sequence of calls, the result
  for no inherited scope and a dark appearance is the root-dark scope.
\<close>

theorem useVariables_resolution:
  "useVariables None scheme s = (if scheme = Light then rootVariables s else rootDarkVariables s)
   \<and> useVariables (Some inherited) scheme s
       = inherited ++ (if scheme = Light then defaultVariables s else defaultDarkVariables s)
   \<and> (\<forall>k v. (if scheme = Light then defaultVariables s else defaultDarkVariables s) k = Some v
         \<longrightarrow> useVariables (Some inherited) scheme s k = Some v)
   \<and> useVariables None Dark (run cs (initial p isProduction))
       = rootDarkVariables (run cs (initial p isProduction))"
  by (simp add: useVariables_def)

text \<open>A key in both scopes resolves to the default's value.\<close>

theorem useVariables_resolution_witness:
  "defaultVariables (register defaultsOptions (initial examplePlatform False)) ''a'' = Some (Num 1)
   \<and> useVariables (Some [''a'' \<mapsto> Num 5, ''z'' \<mapsto> Num 6]) Light
        (register defaultsOptions (initial examplePlatform False)) ''a'' = Some (Num 1)
   \<and> useVariables None Dark (run [Register defaultsOptions, Register rootOptions] (initial examplePlatform False))
       = Map.empty"
proof -
  let ?s = "register defaultsOptions (initial examplePlatform False)"
  have d: "defaultVariables ?s ''a'' = Some (Num 1)"
    by (simp add: register_fields defaultsOptions_def noOptions_def)
  have "\<forall>k v. (if Light = Light then defaultVariables ?s else defaultDarkVariables ?s) k = Some v
         \<longrightarrow> useVariables (Some [''a'' \<mapsto> Num 5, ''z'' \<mapsto> Num 6]) Light ?s k = Some v"
    using useVariables_resolution[of Light ?s "[''a'' \<mapsto> Num 5, ''z'' \<mapsto> Num 6]"] by blast
  then have u: "useVariables (Some [''a'' \<mapsto> Num 5, ''z'' \<mapsto> Num 6]) Light ?s ''a'' = Some (Num 1)"
    using d by simp
  have r: "rootDarkVariables (run [Register defaultsOptions, Register rootOptions] (initial examplePlatform False))
      = Map.empty"
    by (simp add: register_fields defaultsOptions_def rootOptions_def noOptions_def initial_def)
  show ?thesis using d u r by (simp add: useVariables_def)
qed

text \<open>
  Claim C6, as the code has it. \<^verbatim>\<open>__reset\<close> empties the named-style map, the animation
  map, the warnings, the warning-dedup set and the four variable scopes, and sets the
  trackers from the given sources or the platform's, so every read of a scope after it
  gives nothing but what is inherited. It has no statement for the metadata side table,
  the subscriber set or the allocation of arrays, which stay as they were.
\<close>

theorem reset_clears_registries:
  "globalStyles (reset p cfg s) = Map.empty
   \<and> animationMap (reset p cfg s) = Map.empty
   \<and> warnings (reset p cfg s) = Map.empty
   \<and> warned (reset p cfg s) = {}
   \<and> rootVariables (reset p cfg s) = Map.empty
   \<and> rootDarkVariables (reset p cfg s) = Map.empty
   \<and> defaultVariables (reset p cfg s) = Map.empty
   \<and> defaultDarkVariables (reset p cfg s) = Map.empty
   \<and> rem (reset p cfg s) = defaultRem p
   \<and> vw (reset p cfg s) = window_width (case dimensions cfg of None \<Rightarrow> Dimensions p | Some d \<Rightarrow> d)
   \<and> vh (reset p cfg s) = window_height (case dimensions cfg of None \<Rightarrow> Dimensions p | Some d \<Rightarrow> d)
   \<and> colorScheme (reset p cfg s) = (case appearance cfg of None \<Rightarrow> Appearance p | Some a \<Rightarrow> a)
   \<and> useVariables None scheme (reset p cfg s) = Map.empty
   \<and> useVariables (Some inherited) scheme (reset p cfg s) = inherited
   \<and> styleMetaMap (reset p cfg s) = styleMetaMap s
   \<and> subscriptions (reset p cfg s) = subscriptions s
   \<and> invoked (reset p cfg s) = invoked s
   \<and> nextArray (reset p cfg s) = nextArray s"
  by (simp add: reset_def Let_def rem_reset_def vw_reset_def vh_reset_def colorScheme_reset_def
        useVariables_def)

text \<open>A reset after registrations, with the sources of the platform.\<close>

theorem reset_clears_registries_witness:
  "globalStyles (reset examplePlatform defaultConfig (register hoverOptions (initial examplePlatform False)))
     = Map.empty
   \<and> vw (reset examplePlatform defaultConfig (register hoverOptions (initial examplePlatform False))) = 390
   \<and> useVariables None Dark
        (reset examplePlatform defaultConfig (register defaultsOptions (initial examplePlatform False)))
       = Map.empty"
  using reset_clears_registries[of examplePlatform defaultConfig "register hoverOptions (initial examplePlatform False)"]
        reset_clears_registries[of examplePlatform defaultConfig "register defaultsOptions (initial examplePlatform False)" Dark]
  by (simp add: examplePlatform_def defaultConfig_def)

text \<open>
  Claim C6 as written fails for the metadata side table: an entry installed by a
  registration is still there after \<^verbatim>\<open>__reset\<close>.
\<close>

theorem reset_keeps_metadata_counterexample:
  "styleMetaMap (reset examplePlatform defaultConfig (register hoverOptions (initial examplePlatform False)))
      (StyleObj 1) = Some (emptyMeta\<lparr>meta_pseudoClasses := Some ''hover''\<rparr>)
   \<and> styleMetaMap (reset examplePlatform defaultConfig (register hoverOptions (initial examplePlatform False)))
      \<noteq> Map.empty"
proof -
  let ?s = "register hoverOptions (initial examplePlatform False)"
  have m: "styleMetaMap ?s (StyleObj 1) = Some (emptyMeta\<lparr>meta_pseudoClasses := Some ''hover''\<rparr>)"
    by (simp add: register_def Let_def hoverOptions_def noOptions_def tagStyles_Single
          tagStyle_meta broadcast_def hasDynamicField_def expectedMeta_def emptyMeta_def
          hoverStyle_def plainStyle_def initial_def truthy_def)
  have r: "styleMetaMap (reset examplePlatform defaultConfig ?s) = styleMetaMap ?s"
    by (simp add: reset_def Let_def rem_reset_def vw_reset_def vh_reset_def colorScheme_reset_def)
  have "styleMetaMap ?s \<noteq> Map.empty"
    using m by (metis option.distinct(1))
  then show ?thesis using m r by simp
qed

subsection \<open>Animations\<close>

lemma nameRequiresLayout_iff:
  "nameRequiresLayout amap nameObj =
     (\<exists>n k. (if an_type nameObj = ''none'' then n = ''none'' else an_value nameObj = Some n)
        \<and> amap n = Some k \<and> kf_requiresLayout k = Some True)"
  by (auto simp: nameRequiresLayout_def resolveName_def truthy_def split: option.splits)

lemma animationsRequireLayout_iff:
  "animationsRequireLayout amap a = someAnimationRequiresLayout amap a"
  unfolding animationsRequireLayout_def someAnimationRequiresLayout_def
  by (cases "animation_name a") (simp_all add: list_ex_iff nameRequiresLayout_iff)

lemma unknown_name_no_layout:
  "resolveName nameObj = Some n \<Longrightarrow> amap n = None \<Longrightarrow> \<not> nameRequiresLayout amap nameObj"
  by (simp add: nameRequiresLayout_def)

lemma animations_entry:
  "animations d = Some a \<Longrightarrow>
     styleMetaMap (snd (tagStyles name (Single d) s)) (StyleObj (style d))
       = Some (expectedMeta (animationMap s) d)"
  by (simp add: tagStyles_Single tagStyle_meta hasDynamicField_def)

lemma animations_flag:
  "animations d = Some a \<Longrightarrow>
     (meta_requiresLayout (expectedMeta (animationMap s) d) = Some True)
       = (someAnimationRequiresLayout (animationMap s) a \<or> truthy (requiresLayout d))"
  by (auto simp: expectedMeta_sel animationsRequireLayout_iff)

lemma spin_registered:
  "animationMap (register spinOptions s) ''spin'' = Some \<lparr> frames = ''rotate'', kf_requiresLayout = Some True \<rparr>"
  by (simp add: register_def Let_def spinOptions_def noOptions_def broadcast_def)

lemma spin_example:
  "map_option meta_requiresLayout
     (styleMetaMap (snd (tagStyles name (Single spinStyle) (register spinOptions s))) (StyleObj (style spinStyle)))
     = Some (Some True)"
proof -
  have a: "animations spinStyle = Some \<lparr> animation_name = Some [\<lparr> an_type = ''custom'', an_value = Some ''spin'' \<rparr>],
            animation_rest = ''1s linear infinite'' \<rparr>"
    by (simp add: spinStyle_def plainStyle_def)
  have l: "animationsRequireLayout (animationMap (register spinOptions s))
     \<lparr> animation_name = Some [\<lparr> an_type = ''custom'', an_value = Some ''spin'' \<rparr>],
            animation_rest = ''1s linear infinite'' \<rparr>"
    by (simp add: animationsRequireLayout_def nameRequiresLayout_def resolveName_def spin_registered truthy_def)
  show ?thesis
    unfolding animations_entry[OF a] by (simp add: expectedMeta_sel a l)
qed

text \<open>
  Claim C4. The value computed at lines 157 to 160 is true exactly when some referenced
  animation name, \<^verbatim>\<open>"none"\<close> for a reference typed \<^verbatim>\<open>"none"\<close>, has a definition in the
  animation map that requires layout. A descriptor with animations gets an entry whose
  \<^verbatim>\<open>requiresLayout\<close> is true exactly when that value is true or the descriptor's own flag
  is. A name with no definition adds no requirement, and the lookup has no failing branch.
  After registering \<^verbatim>\<open>spin\<close> with \<^verbatim>\<open>requiresLayout\<close> true, a descriptor that names it gets
  \<^verbatim>\<open>requiresLayout\<close> true.
\<close>

theorem animations_requiresLayout:
  "animationsRequireLayout amap a = someAnimationRequiresLayout amap a
   \<and> (animations d = Some a \<longrightarrow>
        styleMetaMap (snd (tagStyles name (Single d) s)) (StyleObj (style d))
          = Some (expectedMeta (animationMap s) d)
        \<and> (meta_requiresLayout (expectedMeta (animationMap s) d) = Some True)
            = (someAnimationRequiresLayout (animationMap s) a \<or> truthy (requiresLayout d)))
   \<and> (\<forall>n. resolveName nameObj = Some n \<longrightarrow> amap n = None \<longrightarrow> \<not> nameRequiresLayout amap nameObj)
   \<and> map_option meta_requiresLayout
        (styleMetaMap (snd (tagStyles name (Single spinStyle) (register spinOptions s)))
           (StyleObj (style spinStyle))) = Some (Some True)"
  using animationsRequireLayout_iff[of amap a] animations_entry[of d a name s] animations_flag[of d a s]
        unknown_name_no_layout[of nameObj _ amap] spin_example[of name s]
  by blast

text \<open>Before \<^verbatim>\<open>spin\<close> is registered the same descriptor gets its animations and no flag.\<close>

theorem animations_requiresLayout_witness:
  "animations spinStyle = Some \<lparr> animation_name = Some [\<lparr> an_type = ''custom'', an_value = Some ''spin'' \<rparr>],
            animation_rest = ''1s linear infinite'' \<rparr>
   \<and> styleMetaMap (snd (tagStyles ''icon'' (Single spinStyle) (initial examplePlatform False))) (StyleObj 2)
       = Some (emptyMeta\<lparr>meta_animations := animations spinStyle\<rparr>)
   \<and> resolveName \<lparr> an_type = ''custom'', an_value = Some ''spin'' \<rparr> = Some ''spin''
   \<and> animationMap (initial examplePlatform False) ''spin'' = None
   \<and> \<not> nameRequiresLayout (animationMap (initial examplePlatform False))
         \<lparr> an_type = ''custom'', an_value = Some ''spin'' \<rparr>
   \<and> map_option meta_requiresLayout
        (styleMetaMap (snd (tagStyles ''icon'' (Single spinStyle) (register spinOptions (initial examplePlatform False))))
           (StyleObj 2)) = Some (Some True)"
proof -
  let ?a = "\<lparr> animation_name = Some [\<lparr> an_type = ''custom'', an_value = Some ''spin'' \<rparr>],
            animation_rest = ''1s linear infinite'' \<rparr>"
  let ?n = "\<lparr> an_type = ''custom'', an_value = Some ''spin'' \<rparr>"
  let ?s = "initial examplePlatform False"
  note t = animations_requiresLayout[of "animationMap ?s" ?a spinStyle "''icon''" ?s ?n]
  have a: "animations spinStyle = Some ?a"
    by (simp add: spinStyle_def plainStyle_def)
  have r: "resolveName ?n = Some ''spin''"
    by (simp add: resolveName_def)
  have m: "animationMap ?s ''spin'' = None"
    by (simp add: initial_def)
  have st: "style spinStyle = 2"
    by (simp add: spinStyle_def plainStyle_def)
  have no: "\<not> nameRequiresLayout (animationMap ?s) ?n"
    using t r m by blast
  have e: "styleMetaMap (snd (tagStyles ''icon'' (Single spinStyle) ?s)) (StyleObj (style spinStyle))
      = Some (expectedMeta (animationMap ?s) spinStyle)"
    using t a by blast
  have x: "expectedMeta (animationMap ?s) spinStyle = emptyMeta\<lparr>meta_animations := animations spinStyle\<rparr>"
    using no
    by (simp add: expectedMeta_def emptyMeta_def spinStyle_def plainStyle_def truthy_def
          animationsRequireLayout_def normalizeContainer_def)
  have sp: "map_option meta_requiresLayout
        (styleMetaMap (snd (tagStyles ''icon'' (Single spinStyle) (register spinOptions ?s)))
           (StyleObj (style spinStyle))) = Some (Some True)"
    using animations_requiresLayout[of "animationMap ?s" ?a spinStyle "''icon''" ?s ?n] by blast
  show ?thesis
    using a r m no e x sp unfolding st by simp
qed

subsection \<open>create\<close>

lemma tagNamed_Cons:
  "tagNamed ((name, x) # rest) namedStyles s =
     tagNamed rest (assign namedStyles name (Style (style x))) (snd (tagStyles name (Single x) s))"
  by (simp add: tagStyles_Single)

lemma tagNamed_fst:
  "fst (tagNamed styles namedStyles s) =
     foldl (\<lambda>ns (name, x). assign ns name (Style (style x))) namedStyles styles"
proof (induction styles arbitrary: namedStyles s)
  case Nil
  show ?case by simp
next
  case (Cons e styles)
  obtain n x where e: "e = (n, x)" by (cases e)
  show ?case
    unfolding e tagNamed_Cons Cons.IH by simp
qed

lemma tagNamed_snd:
  "snd (tagNamed styles namedStyles s) =
     foldl (\<lambda>s (name, x). snd (tagStyles name (Single x) s)) s styles"
proof (induction styles arbitrary: namedStyles s)
  case Nil
  show ?case by simp
next
  case (Cons e styles)
  obtain n x where e: "e = (n, x)" by (cases e)
  show ?case
    unfolding e tagNamed_Cons Cons.IH by simp
qed

lemma assign_sel:
  "own (assign ns n v) = (if n = ''__proto__'' then own ns else (own ns)(n \<mapsto> v))"
  "prototype (assign ns n v) = (if n = ''__proto__'' then Some v else prototype ns)"
  by (simp_all add: assign_def)

lemma assigned_own:
  "own (foldl (\<lambda>ns (name, x). assign ns name (Style (style x))) namedStyles styles) name =
     (if name = ''__proto__'' then own namedStyles name
      else case map_of (rev styles) name of
             None \<Rightarrow> own namedStyles name
           | Some x \<Rightarrow> Some (Style (style x)))"
proof (induction styles arbitrary: namedStyles)
  case Nil
  show ?case by simp
next
  case (Cons e styles)
  obtain n x where e: "e = (n, x)" by (cases e)
  show ?case
    unfolding e by (simp add: Cons.IH assign_sel map_add_def split: option.split)
qed

lemma assigned_prototype:
  "prototype (foldl (\<lambda>ns (name, x). assign ns name (Style (style x))) namedStyles styles) =
     (case map_of (rev styles) ''__proto__'' of
        None \<Rightarrow> prototype namedStyles
      | Some x \<Rightarrow> Some (Style (style x)))"
proof (induction styles arbitrary: namedStyles)
  case Nil
  show ?case by simp
next
  case (Cons e styles)
  obtain n x where e: "e = (n, x)" by (cases e)
  show ?case
    unfolding e by (simp add: Cons.IH assign_sel map_add_def split: option.split)
qed

lemma tagging_fold_outside:
  "outside_tagging (foldl (\<lambda>s (name, x). snd (tagStyles name (Single x) s)) s styles) = outside_tagging s"
proof (induction styles arbitrary: s)
  case Nil
  show ?case by simp
next
  case (Cons e styles)
  obtain n x where e: "e = (n, x)" by (cases e)
  show ?case unfolding e by (simp add: Cons.IH tagStyles_outside)
qed

lemma tagging_fold_nextArray:
  "nextArray (foldl (\<lambda>s (name, x). snd (tagStyles name (Single x) s)) s styles) = nextArray s"
proof (induction styles arbitrary: s)
  case Nil
  show ?case by simp
next
  case (Cons e styles)
  obtain n x where e: "e = (n, x)" by (cases e)
  show ?case unfolding e by (simp add: Cons.IH tagStyles_nextArray)
qed

lemma tagStyles_Single_warnings_production:
  "production s \<Longrightarrow> warnings (snd (tagStyles name (Single x) s)) = warnings s"
  by (simp add: tagStyles_Single tagStyle_warnings split: option.split)

lemma tagStyles_production: "production (snd (tagStyles name x s)) = production s"
  using tagStyles_outside[of name x s] by (simp add: outside_tagging_def)

lemma tagging_fold_warnings:
  "production s \<Longrightarrow>
     warnings (foldl (\<lambda>s (name, x). snd (tagStyles name (Single x) s)) s styles) = warnings s"
proof (induction styles arbitrary: s)
  case Nil
  show ?case by simp
next
  case (Cons e styles)
  obtain n x where e: "e = (n, x)" by (cases e)
  have p: "production (snd (tagStyles n (Single x) s))"
    using Cons.prems by (simp add: tagStyles_production)
  show ?case unfolding e
    using Cons.IH[OF p] Cons.prems by (simp add: tagStyles_Single_warnings_production)
qed

lemma tagging_fold_animationMap:
  "animationMap (foldl (\<lambda>s (name, x). snd (tagStyles name (Single x) s)) s styles) = animationMap s"
  using tagging_fold_outside[of s styles] by (simp add: outside_tagging_def)

lemma tagging_fold_side_table:
  "styleMetaMap (foldl (\<lambda>s (name, x). snd (tagStyles name (Single x) s)) s styles) =
     foldl (\<lambda>m (name, x). if hasDynamicField x
                            then m(StyleObj (style x) \<mapsto> expectedMeta amap x) else m)
       (styleMetaMap s) styles"
  if "animationMap s = amap"
  using that
proof (induction styles arbitrary: s)
  case Nil
  show ?case by simp
next
  case (Cons e styles)
  obtain n x where e: "e = (n, x)" by (cases e)
  let ?s1 = "snd (tagStyles n (Single x) s)"
  have a: "animationMap ?s1 = amap"
    using tagStyles_outside[of n "Single x" s] Cons.prems by (simp add: outside_tagging_def)
  have m: "styleMetaMap ?s1 =
      (if hasDynamicField x then (styleMetaMap s)(StyleObj (style x) \<mapsto> expectedMeta amap x)
       else styleMetaMap s)"
    using Cons.prems by (simp add: tagStyles_Single tagStyle_meta)
  show ?case
    unfolding e using Cons.IH[OF a]
    by (simp only: foldl.simps prod.case m)
qed

lemma tagging_fold_warnings_dev:
  "\<not> production s \<Longrightarrow>
     warnings (foldl (\<lambda>s (name, x). snd (tagStyles name (Single x) s)) s styles) =
       foldl (\<lambda>w (name, x). case style_warnings x of None \<Rightarrow> w | Some ws \<Rightarrow> w(name \<mapsto> ws))
         (warnings s) styles"
proof (induction styles arbitrary: s)
  case Nil
  show ?case by simp
next
  case (Cons e styles)
  obtain n x where e: "e = (n, x)" by (cases e)
  let ?s1 = "snd (tagStyles n (Single x) s)"
  have p: "\<not> production ?s1"
    using Cons.prems by (simp add: tagStyles_production)
  have w: "warnings ?s1 =
      (case style_warnings x of None \<Rightarrow> warnings s | Some ws \<Rightarrow> (warnings s)(n \<mapsto> ws))"
    using Cons.prems by (simp add: tagStyles_Single tagStyle_warnings split: option.split)
  show ?case
    unfolding e using Cons.IH[OF p]
    by (simp only: foldl.simps prod.case w)
qed

lemma create_eq:
  "create styles s =
     (foldl (\<lambda>ns (name, x). assign ns name (Style (style x))) \<lparr> own = Map.empty, prototype = None \<rparr> styles,
      broadcast (foldl (\<lambda>s (name, x). snd (tagStyles name (Single x) s)) s styles))"
  using tagNamed_fst[of styles "\<lparr> own = Map.empty, prototype = None \<rparr>" s]
        tagNamed_snd[of styles "\<lparr> own = Map.empty, prototype = None \<rparr>" s]
  by (cases "tagNamed styles \<lparr> own = Map.empty, prototype = None \<rparr> s") (simp add: create_def)

text \<open>
  What \<^verbatim>\<open>create\<close> does, for every argument. It tags the descriptors in order: the side
  table gets the entry of each dynamic descriptor, the warnings (outside production) those
  of each descriptor that has some. It then calls every subscriber once, and each finds the
  side table as it is after the tagging. The named-style map, the animation map, the four
  scopes, the subscriber set, the trackers and the warning-dedup set are as before. The
  object returned has an own property for each name but \<^verbatim>\<open>"__proto__"\<close>; the value tagged
  under that name is its prototype.
\<close>

lemma create_effect:
  "own (fst (create styles s)) name =
     (if name = ''__proto__'' then None
      else map_option (\<lambda>x. Style (style x)) (map_of (rev styles) name))
   \<and> prototype (fst (create styles s)) = map_option (\<lambda>x. Style (style x)) (map_of (rev styles) ''__proto__'')
   \<and> styleMetaMap (snd (create styles s)) =
       foldl (\<lambda>m (name, x). if hasDynamicField x
                              then m(StyleObj (style x) \<mapsto> expectedMeta (animationMap s) x) else m)
         (styleMetaMap s) styles
   \<and> warnings (snd (create styles s)) =
       (if production s then warnings s
        else foldl (\<lambda>w (name, x). case style_warnings x of None \<Rightarrow> w | Some ws \<Rightarrow> w(name \<mapsto> ws))
               (warnings s) styles)
   \<and> invoked (snd (create styles s))
       = invoked s @ map (\<lambda>f. (f, observe (snd (create styles s)))) (subscriptions s)
   \<and> outside_loops (snd (create styles s)\<lparr>invoked := invoked s\<rparr>) = outside_loops s
   \<and> globalStyles (snd (create styles s)) = globalStyles s
   \<and> animationMap (snd (create styles s)) = animationMap s
   \<and> nextArray (snd (create styles s)) = nextArray s"
proof -
  let ?t = "foldl (\<lambda>s (name, x). snd (tagStyles name (Single x) s)) s styles"
  have o: "outside_tagging ?t = outside_tagging s"
    by (rule tagging_fold_outside)
  have w: "warnings ?t =
      (if production s then warnings s
       else foldl (\<lambda>w (name, x). case style_warnings x of None \<Rightarrow> w | Some ws \<Rightarrow> w(name \<mapsto> ws))
              (warnings s) styles)"
    using tagging_fold_warnings[of s styles] tagging_fold_warnings_dev[of s styles] by simp
  show ?thesis
    using o
    by (simp add: create_eq assigned_own assigned_prototype broadcast_def observe_def w
          tagging_fold_side_table[OF refl] tagging_fold_nextArray outside_tagging_def outside_loops_def
          option.map_sel split: option.split)
qed

text \<open>
  Claim C8 holds but for one name. \<^verbatim>\<open>create\<close> of a mapping whose own key is
  \<^verbatim>\<open>"__proto__"\<close> tags the descriptor and calls the subscriber at the end, who finds the
  entry in the side table; but the object returned has no own property of that name: line
  102 assigns through the inherited setter, and the tagged value becomes the prototype.
  Under any other name the same descriptor is returned as an own property, and
  \<^verbatim>\<open>register\<close>, which stores into a \<^verbatim>\<open>Map\<close>, keeps the name \<^verbatim>\<open>"__proto__"\<close> as a key.
\<close>

theorem create_proto_key:
  "own (fst (create [(''__proto__'', hoverStyle)] (snd (subscribe 7 (initial examplePlatform False)))))
     = Map.empty
   \<and> prototype (fst (create [(''__proto__'', hoverStyle)] (snd (subscribe 7 (initial examplePlatform False)))))
     = Some (Style 1)
   \<and> own (fst (create [(''btn'', hoverStyle)] (snd (subscribe 7 (initial examplePlatform False))))) ''btn''
     = Some (Style 1)
   \<and> styleMetaMap (snd (create [(''__proto__'', hoverStyle)] (snd (subscribe 7 (initial examplePlatform False)))))
     = [StyleObj 1 \<mapsto> emptyMeta\<lparr>meta_pseudoClasses := Some ''hover''\<rparr>]
   \<and> invoked (snd (create [(''__proto__'', hoverStyle)] (snd (subscribe 7 (initial examplePlatform False)))))
     = [(7, (Map.empty, [StyleObj 1 \<mapsto> emptyMeta\<lparr>meta_pseudoClasses := Some ''hover''\<rparr>], Map.empty,
          Map.empty, Map.empty, Map.empty, Map.empty))]
   \<and> globalStyles (snd (create [(''__proto__'', hoverStyle)] (snd (subscribe 7 (initial examplePlatform False)))))
     = Map.empty
   \<and> globalStyles (register protoOptions (snd (subscribe 7 (initial examplePlatform False)))) ''__proto__''
     = Some (Style 1)"
proof -
  let ?s = "snd (subscribe 7 (initial examplePlatform False))"
  let ?t = "snd (create [(''__proto__'', hoverStyle)] ?s)"
  have s: "subscriptions ?s = [7]" "invoked ?s = []" "styleMetaMap ?s = Map.empty"
    "animationMap ?s = Map.empty" "globalStyles ?s = Map.empty"
    "outside_loops ?s = outside_loops ((initial examplePlatform False)\<lparr>subscriptions := [7]\<rparr>)"
    by (simp_all add: subscribe_def set_add_def initial_def)
  have dyn: "hasDynamicField hoverStyle"
    by (simp add: hasDynamicField_def hoverStyle_def plainStyle_def truthy_def)
  have meta: "expectedMeta Map.empty hoverStyle = emptyMeta\<lparr>meta_pseudoClasses := Some ''hover''\<rparr>"
    by (simp add: expectedMeta_def emptyMeta_def hoverStyle_def plainStyle_def truthy_def)
  have st: "style hoverStyle = 1"
    by (simp add: hoverStyle_def plainStyle_def)
  have 1: "own (fst (create [(''__proto__'', hoverStyle)] ?s)) = Map.empty"
    by (simp add: create_eq assign_def)
  have 2: "prototype (fst (create [(''__proto__'', hoverStyle)] ?s)) = Some (Style 1)"
    by (simp add: create_eq assign_def st)
  have 3: "own (fst (create [(''btn'', hoverStyle)] ?s)) ''btn'' = Some (Style 1)"
    by (simp add: create_eq assign_def st)
  note e = create_effect[of "[(''__proto__'', hoverStyle)]" ?s]
  have 4: "styleMetaMap ?t = [StyleObj 1 \<mapsto> emptyMeta\<lparr>meta_pseudoClasses := Some ''hover''\<rparr>]"
    using e by (simp add: s dyn meta st)
  have 6: "globalStyles ?t = Map.empty" and a: "animationMap ?t = Map.empty"
    using e by (simp_all add: s)
  have "outside_loops (?t\<lparr>invoked := invoked ?s\<rparr>) = outside_loops ?s"
    using e by blast
  then have v: "rootVariables ?t = Map.empty" "rootDarkVariables ?t = Map.empty"
    "defaultVariables ?t = Map.empty" "defaultDarkVariables ?t = Map.empty"
    unfolding s by (simp_all add: outside_loops_def initial_def)
  have "invoked ?t = invoked ?s @ map (\<lambda>f. (f, observe ?t)) (subscriptions ?s)"
    using e by blast
  then have 5: "invoked ?t
      = [(7, (Map.empty, [StyleObj 1 \<mapsto> emptyMeta\<lparr>meta_pseudoClasses := Some ''hover''\<rparr>], Map.empty,
          Map.empty, Map.empty, Map.empty, Map.empty))]"
    by (simp add: s observe_def 4 6 a v)
  have 7: "globalStyles (register protoOptions ?s) ''__proto__'' = Some (Style 1)"
    by (simp add: register_def Let_def protoOptions_def noOptions_def setDeclarations_Cons
          tagStyles_Single tagStyles_globalStyles broadcast_def st del: setDeclarations.simps(2))
  show ?thesis
    using 1 2 3 4 5 6 7 by blast
qed

subsection \<open>Subscriptions\<close>

lemma create_fields:
  "subscriptions (snd (create styles s)) = subscriptions s"
  "invoked (snd (create styles s))
     = invoked s @ map (\<lambda>f. (f, observe (snd (create styles s)))) (subscriptions s)"
  using create_effect[of styles s] by (simp_all add: outside_loops_def)

lemma reset_fields:
  "subscriptions (reset p cfg s) = subscriptions s"
  "invoked (reset p cfg s) = invoked s"
  "styleMetaMap (reset p cfg s) = styleMetaMap s"
  "nextArray (reset p cfg s) = nextArray s"
  by (simp_all add: reset_def Let_def rem_reset_def vw_reset_def vh_reset_def colorScheme_reset_def)

lemma timesInvoked_appended:
  "invoked t = invoked s @ map (\<lambda>g. (g, v)) subs \<Longrightarrow>
     timesInvoked f t = timesInvoked f s + length (filter (\<lambda>g. g = f) subs)"
  by (simp add: timesInvoked_def filter_map comp_def)

lemma register_times:
  "timesInvoked f (register options s)
     = timesInvoked f s + length (filter (\<lambda>g. g = f) (subscriptions s))"
  by (rule timesInvoked_appended) (rule register_fields)

lemma create_times:
  "timesInvoked f (snd (create styles s))
     = timesInvoked f s + length (filter (\<lambda>g. g = f) (subscriptions s))"
  by (rule timesInvoked_appended) (rule create_fields)

lemma not_subscribed_filter: "f \<notin> set xs \<Longrightarrow> filter (\<lambda>g. g = f) xs = []"
  by (induction xs) auto



lemma unsubscribe_removes: "f \<notin> set (subscriptions (unsubscribe f t))"
  by (simp add: unsubscribe_def set_delete_def)

lemma unsubscribe_absent: "f \<notin> set (subscriptions t) \<Longrightarrow> unsubscribe f t = t"
proof -
  assume "f \<notin> set (subscriptions t)"
  then have "filter (\<lambda>y. y \<noteq> f) (subscriptions t) = subscriptions t"
    by (induction "subscriptions t") (auto simp: filter_id_conv)
  then show ?thesis by (simp add: unsubscribe_def set_delete_def)
qed


lemma timesInvoked_subscriptions [simp]:
  "timesInvoked g (t\<lparr>subscriptions := subs\<rparr>) = timesInvoked g t"
  by (simp add: timesInvoked_def)




lemma initial_times: "timesInvoked g (initial p isProduction) = 0"
  by (simp add: timesInvoked_def initial_def)


lemma step_not_subscribed:
  "f \<notin> set (subscriptions t) \<Longrightarrow> c \<noteq> Subscribe f \<Longrightarrow>
     f \<notin> set (subscriptions (step c t)) \<and> timesInvoked f (step c t) = timesInvoked f t"
proof (cases c)
  case (Subscribe g)
  assume "f \<notin> set (subscriptions t)" "c \<noteq> Subscribe f"
  then show ?thesis using Subscribe
    by (auto simp: subscribe_def set_add_def timesInvoked_def)
next
  case (Unsubscribe g)
  assume "f \<notin> set (subscriptions t)"
  then show ?thesis using Unsubscribe
    by (auto simp: unsubscribe_def set_delete_def timesInvoked_def)
next
  case (Register options)
  assume "f \<notin> set (subscriptions t)"
  then show ?thesis using Register
    by (simp add: register_fields register_times not_subscribed_filter)
next
  case (Create styles)
  assume "f \<notin> set (subscriptions t)"
  then show ?thesis using Create
    by (simp add: create_fields create_times not_subscribed_filter)
next
  case (Reset p cfg)
  assume "f \<notin> set (subscriptions t)"
  then show ?thesis using Reset
    by (simp add: reset_fields timesInvoked_def)
qed

lemma run_not_subscribed:
  "f \<notin> set (subscriptions t) \<Longrightarrow> Subscribe f \<notin> set cs \<Longrightarrow>
     f \<notin> set (subscriptions (run cs t)) \<and> timesInvoked f (run cs t) = timesInvoked f t"
proof (induction cs arbitrary: t)
  case Nil
  then show ?case by simp
next
  case (Cons c cs)
  have c: "c \<noteq> Subscribe f" and cs: "Subscribe f \<notin> set cs"
    using Cons.prems(2) by auto
  have st: "f \<notin> set (subscriptions (step c t))" "timesInvoked f (step c t) = timesInvoked f t"
    using step_not_subscribed[OF Cons.prems(1) c] by simp_all
  show ?case
    using Cons.IH[OF st(1) cs] st(2) by simp
qed

text \<open>
  Claim C9. The function \<^verbatim>\<open>__subscribe\<close> returns removes the callback from the subscriber
  set. After it has run, no sequence of calls that does not subscribe the callback again
  invokes it, and running the function again, at once or after such calls, changes
  nothing.
\<close>

theorem unsubscribe_guarantee:
  "fst (subscribe f s) = unsubscribe f
   \<and> f \<notin> set (subscriptions (fst (subscribe f s) t))
   \<and> fst (subscribe f s) (fst (subscribe f s) t) = fst (subscribe f s) t
   \<and> (Subscribe f \<notin> set cs \<longrightarrow>
        timesInvoked f (run cs (fst (subscribe f s) t)) = timesInvoked f (fst (subscribe f s) t)
        \<and> fst (subscribe f s) (run cs (fst (subscribe f s) t)) = run cs (fst (subscribe f s) t))"
proof -
  have u: "fst (subscribe f s) = unsubscribe f"
    by (simp add: subscribe_def)
  have gone: "f \<notin> set (subscriptions (unsubscribe f t))"
    by (rule unsubscribe_removes)
  have twice: "unsubscribe f (unsubscribe f t) = unsubscribe f t"
    by (rule unsubscribe_absent[OF gone])
  have later: "timesInvoked f (run cs (unsubscribe f t)) = timesInvoked f (unsubscribe f t)
      \<and> unsubscribe f (run cs (unsubscribe f t)) = run cs (unsubscribe f t)"
    if "Subscribe f \<notin> set cs"
    using run_not_subscribed[OF gone that] unsubscribe_absent[of f "run cs (unsubscribe f t)"] by simp
  show ?thesis
    unfolding u using gone twice later by blast
qed

text \<open>An unsubscribed callback stays silent through two registrations and a \<^verbatim>\<open>create\<close>.\<close>

theorem unsubscribe_guarantee_witness:
  "Subscribe 7 \<notin> set [Register defaultsOptions, Create [(''btn'', hoverStyle)], Subscribe 8, Register rootOptions]
   \<and> timesInvoked 7 (run [Register defaultsOptions, Create [(''btn'', hoverStyle)], Subscribe 8, Register rootOptions]
        (fst (subscribe 7 (initial examplePlatform False)) (snd (subscribe 7 (initial examplePlatform False))))) = 0
   \<and> timesInvoked 7 (run [Register defaultsOptions] (snd (subscribe 7 (initial examplePlatform False)))) = 1"
proof -
  let ?cs = "[Register defaultsOptions, Create [(''btn'', hoverStyle)], Subscribe 8, Register rootOptions]"
  let ?s = "initial examplePlatform False"
  have n: "Subscribe 7 \<notin> set ?cs" by simp
  have z: "timesInvoked 7 (fst (subscribe 7 ?s) (snd (subscribe 7 ?s))) = 0"
    by (simp add: subscribe_def unsubscribe_def timesInvoked_def initial_def)
  have e: "timesInvoked 7 (run ?cs (fst (subscribe 7 ?s) (snd (subscribe 7 ?s))))
      = timesInvoked 7 (fst (subscribe 7 ?s) (snd (subscribe 7 ?s)))"
    using unsubscribe_guarantee[of 7 ?s "snd (subscribe 7 ?s)" ?cs] n by blast
  have a: "timesInvoked 7 (run ?cs (fst (subscribe 7 ?s) (snd (subscribe 7 ?s)))) = 0"
    using e z by (simp only:)
  have b: "timesInvoked 7 (run [Register defaultsOptions] (snd (subscribe 7 ?s))) = 1"
    by (simp add: register_times initial_times subscribe_def set_add_def)
       (simp add: initial_def)
  show ?thesis using n a b by simp
qed









subsection \<open>Arrays yet to be allocated\<close>

text \<open>
  The array that \<^verbatim>\<open>tagStyles\<close> allocates next is no key of the side table in any state
  that calls of the module reach, which is what the sentinel of a style array relies on.
\<close>

lemma fresh_arrays_cong:
  "styleMetaMap t = styleMetaMap s \<Longrightarrow> nextArray t = nextArray s \<Longrightarrow> fresh_arrays t = fresh_arrays s"
  by (simp add: fresh_arrays_def)

lemma tagStyles_Single_array_key:
  "styleMetaMap (snd (tagStyles name (Single d) s)) (ArrayObj a) = styleMetaMap s (ArrayObj a)"
  by (simp add: tagStyles_Single tagStyle_meta)

lemma tagStyles_fresh: "fresh_arrays s \<Longrightarrow> fresh_arrays (snd (tagStyles name x s))"
proof (cases x)
  case (Single d)
  assume "fresh_arrays s"
  then show ?thesis
    unfolding Single fresh_arrays_def
    by (simp add: tagStyles_Single_array_key tagStyles_nextArray)
next
  case (Many a xs)
  assume f: "fresh_arrays s"
  show ?thesis
    unfolding Many fresh_arrays_def
  proof (intro allI impI)
    fix n
    assume "nextArray (snd (tagStyles name (Many a xs) s)) \<le> n"
    then have n: "Suc (nextArray s) \<le> n"
      by (simp add: tagStyles_nextArray)
    then have "Mapped n \<noteq> Mapped (nextArray s)" by simp
    then have "styleMetaMap (snd (tagStyles name (Many a xs) s)) (ArrayObj (Mapped n))
        = styleMetaMap s (ArrayObj (Mapped n))"
      by (rule tagStyles_other_arrays)
    then show "styleMetaMap (snd (tagStyles name (Many a xs) s)) (ArrayObj (Mapped n)) = None"
      using f n by (simp add: fresh_arrays_def)
  qed
qed

lemma fresh_arrays_globalStyles [simp]: "fresh_arrays (s\<lparr>globalStyles := g\<rparr>) = fresh_arrays s"
  by (simp add: fresh_arrays_def)

lemma setDeclarations_fresh: "fresh_arrays s \<Longrightarrow> fresh_arrays (setDeclarations ds s)"
proof (induction ds arbitrary: s)
  case Nil
  then show ?case by simp
next
  case (Cons e ds)
  obtain n x where e: "e = (n, x)" by (cases e)
  show ?case
    unfolding e setDeclarations_Cons
    by (rule Cons.IH) (simp add: tagStyles_fresh Cons.prems)
qed

lemma tagging_fold_fresh:
  "fresh_arrays s \<Longrightarrow> fresh_arrays (foldl (\<lambda>s (name, x). snd (tagStyles name (Single x) s)) s styles)"
proof (induction styles arbitrary: s)
  case Nil
  then show ?case by simp
next
  case (Cons e styles)
  obtain n x where e: "e = (n, x)" by (cases e)
  show ?case
    unfolding e using Cons.IH[OF tagStyles_fresh[OF Cons.prems, of n "Single x"]] by simp
qed

lemma fresh_arrays_upd [simp]:
  "fresh_arrays (s\<lparr>animationMap := a\<rparr>) = fresh_arrays s"
  "fresh_arrays (s\<lparr>defaultVariables := v\<rparr>) = fresh_arrays s"
  "fresh_arrays (s\<lparr>defaultDarkVariables := v\<rparr>) = fresh_arrays s"
  "fresh_arrays (s\<lparr>rootVariables := v\<rparr>) = fresh_arrays s"
  "fresh_arrays (s\<lparr>rootDarkVariables := v\<rparr>) = fresh_arrays s"
  "fresh_arrays (s\<lparr>subscriptions := c\<rparr>) = fresh_arrays s"
  "fresh_arrays (s\<lparr>invoked := i\<rparr>) = fresh_arrays s"
  by (simp_all add: fresh_arrays_def)

lemma register_fresh: "fresh_arrays s \<Longrightarrow> fresh_arrays (register options s)"
  unfolding register_unfold Let_def broadcast_def
  by (simp add: setDeclarations_fresh setKeyframes_eq split: option.split)

lemma create_fresh: "fresh_arrays s \<Longrightarrow> fresh_arrays (snd (create styles s))"
  by (simp add: create_eq broadcast_def tagging_fold_fresh)

lemma reset_fresh: "fresh_arrays s \<Longrightarrow> fresh_arrays (reset p cfg s)"
  using fresh_arrays_cong[of "reset p cfg s" s] by (simp add: reset_fields)

lemma step_fresh: "fresh_arrays s \<Longrightarrow> fresh_arrays (step c s)"
  by (cases c) (simp_all add: register_fresh create_fresh reset_fresh subscribe_def unsubscribe_def)

lemma run_fresh: "fresh_arrays s \<Longrightarrow> fresh_arrays (run cs s)"
  by (induction cs arbitrary: s) (simp_all add: step_fresh)

lemma initial_fresh: "fresh_arrays (initial p isProduction)"
  by (simp add: fresh_arrays_def initial_def)

lemma reachable_fresh:
  "styleMetaMap (run cs (initial p isProduction))
     (ArrayObj (Mapped (nextArray (run cs (initial p isProduction))))) = None"
  using run_fresh[OF initial_fresh, of cs p isProduction] by (simp add: fresh_arrays_def)

end
